theory Spec2Isabelle
  imports Main "HOL-Library.Word" "HOL-Library.Multiset"
begin

unbundle bit_operations_syntax

section \<open>Data model of the ebp engine (src/ebp/engine.go)\<close>

text \<open>
  Machine integers are words: Go's \<open>uint64\<close> is \<open>64 word\<close>, \<open>uint256.Int\<close> is
  \<open>256 word\<close> (its \<open>Add\<close>, \<open>Sub\<close> and \<open>Mul\<close> wrap modulo \<open>2 ^ 256\<close>), a
  \<open>common.Address\<close> (\<open>[20]byte\<close>) is \<open>160 word\<close> and a \<open>[32]byte\<close> holding a
  big-endian number is the \<open>256 word\<close> it encodes.
\<close>

type_synonym u64 = "64 word"
type_synonym u256 = "256 word"
type_synonym Address = "160 word"
type_synonym bytes = "8 word list"

text \<open>Every panic of the Go runtime that the modelled code can reach is a value.\<close>

datatype error =
    NilPointerDereference
  | NilMapAssignment
  | IndexOutOfRange
  | IntegerDivideByZero
  | MakesliceLenOutOfRange
  | DecodeFailed
  | BalanceNotEnough

subsection \<open>The frontier (engine.go, lines 78-154)\<close>

text \<open>
  A Go map that was never made is \<open>nil\<close>: reading it answers the zero value and
  \<open>false\<close>, assigning to it panics. A map field is therefore an optional finite map,
  \<open>None\<close> being the nil map. A \<open>*uint256.Int\<close> stored in a map may itself be nil, so
  a balance entry is a \<open>u256 option\<close>. A \<open>*frontier\<close> is a \<open>frontier option\<close>,
  \<open>None\<close> being the nil pointer.
\<close>

record frontier =
  addr2nonce :: "(Address \<rightharpoonup> u64) option"
  addr2Balance :: "(Address \<rightharpoonup> u256 option) option"
  addr2Gas :: "(Address \<rightharpoonup> u64) option"

text \<open>\<open>v, ok := m[k]\<close> on a possibly nil map.\<close>

definition mapRead :: "('k \<rightharpoonup> 'v) option \<Rightarrow> 'k \<Rightarrow> 'v \<Rightarrow> 'v \<times> bool" where
  "mapRead m k zero =
     (case m of
        None \<Rightarrow> (zero, False)
      | Some f \<Rightarrow> (case f k of None \<Rightarrow> (zero, False) | Some v \<Rightarrow> (v, True)))"

text \<open>\<open>m[k] = v\<close> on a possibly nil map.\<close>

definition mapAssign :: "('k \<rightharpoonup> 'v) option \<Rightarrow> 'k \<Rightarrow> 'v \<Rightarrow> error + ('k \<rightharpoonup> 'v) option" where
  "mapAssign m k v =
     (case m of
        None \<Rightarrow> Inl NilMapAssignment
      | Some f \<Rightarrow> Inr (Some (f(k \<mapsto> v))))"

definition GetLatestNonce :: "frontier option \<Rightarrow> Address \<Rightarrow> u64 \<times> bool" where
  "GetLatestNonce nm addr =
     (case nm of
        None \<Rightarrow> (0, False)
      | Some f \<Rightarrow> mapRead (addr2nonce f) addr 0)"

definition SetLatestNonce :: "frontier option \<Rightarrow> Address \<Rightarrow> u64 \<Rightarrow> error + frontier option" where
  "SetLatestNonce nm addr newNonce =
     (case nm of
        None \<Rightarrow> Inr None
      | Some f \<Rightarrow>
          (case mapAssign (addr2nonce f) addr newNonce of
             Inl e \<Rightarrow> Inl e
           | Inr m \<Rightarrow> Inr (Some (f\<lparr>addr2nonce := m\<rparr>))))"

definition GetLatestBalance :: "frontier option \<Rightarrow> Address \<Rightarrow> u256 option \<times> bool" where
  "GetLatestBalance nm addr =
     (case nm of
        None \<Rightarrow> (None, False)
      | Some f \<Rightarrow> mapRead (addr2Balance f) addr None)"

definition SetLatestBalance ::
  "frontier option \<Rightarrow> Address \<Rightarrow> u256 option \<Rightarrow> error + frontier option" where
  "SetLatestBalance nm addr balance =
     (case nm of
        None \<Rightarrow> Inr None
      | Some f \<Rightarrow>
          (case mapAssign (addr2Balance f) addr balance of
             Inl e \<Rightarrow> Inl e
           | Inr m \<Rightarrow> Inr (Some (f\<lparr>addr2Balance := m\<rparr>))))"

definition GetLatestTotalGas :: "frontier option \<Rightarrow> Address \<Rightarrow> u64 \<times> bool" where
  "GetLatestTotalGas nm addr =
     (case nm of
        None \<Rightarrow> (0, False)
      | Some f \<Rightarrow> mapRead (addr2Gas f) addr 0)"

definition SetLatestTotalGas :: "frontier option \<Rightarrow> Address \<Rightarrow> u64 \<Rightarrow> error + frontier option" where
  "SetLatestTotalGas nm addr gasLimit =
     (case nm of
        None \<Rightarrow> Inr None
      | Some f \<Rightarrow>
          (case mapAssign (addr2Gas f) addr gasLimit of
             Inl e \<Rightarrow> Inl e
           | Inr m \<Rightarrow> Inr (Some (f\<lparr>addr2Gas := m\<rparr>))))"

definition GetEmptyFrontier :: "frontier option" where
  "GetEmptyFrontier =
     Some \<lparr>addr2nonce = Some Map.empty, addr2Balance = Some Map.empty, addr2Gas = Some Map.empty\<rparr>"

subsection \<open>Transactions, blocks and receipts (package types)\<close>

text \<open>
  The records of package \<open>types\<close> are declared outside engine.go; each is given here with
  the fields engine.go reads or writes. \<open>Value\<close> and \<open>GasPrice\<close> are \<open>[32]byte\<close>
  big-endian numbers, read by \<open>utils.U256FromSlice32\<close> and \<open>utils.BigIntFromSlice32\<close>.
\<close>

record TxToRun =
  HashID :: "256 word"
  From :: Address
  To :: Address
  Nonce :: u64
  Value :: u256
  GasPrice :: u256
  Gas :: u64
  Data :: bytes
  Height :: u64

record BlockInfo =
  Number :: u64
  Hash :: "256 word"

text \<open>
  The committed-transaction record \<open>types.Transaction\<close>. Fields whose names clash with
  those of \<open>TxToRun\<close>, \<open>BlockInfo\<close> or \<open>TxRunner\<close> carry a prime. The log list, the
  bloom filter and the internal call traces, which \<open>collectCommittableTxs\<close> only copies
  from the runner, are left out.
\<close>

record Transaction =
  Hash' :: "256 word"
  TransactionIndex :: u64
  Nonce' :: u64
  BlockHash :: "256 word"
  BlockNumber :: u64
  From' :: Address
  To' :: Address
  Value' :: u256
  GasPrice' :: u256
  Gas' :: u64
  Input :: bytes
  CumulativeGasUsed :: u64
  GasUsed' :: u64
  ContractAddress :: Address
  OutData' :: bytes
  Status' :: u64
  StatusStr :: string

definition ReceiptStatusFailed :: u64 where
  "ReceiptStatusFailed = 0"

definition ReceiptStatusSuccessful :: u64 where
  "ReceiptStatusSuccessful = 1"

text \<open>
  Modelled from the spec: the serialisation \<open>TxToRun.ToBytes\<close> and its inverse
  \<open>FromBytes\<close> are in package \<open>types\<close>. A byte string handled by the engine is the nil
  slice or the encoding of a transaction; the encoding is injective.
\<close>

datatype txbytes = nilBytes | ToBytes TxToRun

fun FromBytes :: "txbytes \<Rightarrow> TxToRun option" where
  "FromBytes nilBytes = None"
| "FromBytes (ToBytes t) = Some t"

text \<open>Generated by parallelReadAccounts (engine.go, lines 62-66).\<close>

record preparedInfo =
  tx :: TxToRun
  txBytes :: txbytes
  errorStr :: string

subsection \<open>The store and its copy-on-write contexts\<close>

text \<open>
  Modelled from the spec: the trunk store, \<open>types.Context\<close> and the rabbit store are
  outside engine.go. The trunk holds the accounts of the world state, the value under
  \<open>StandbyTxQueueKey\<close> (absent, or a byte string) and the value under each
  \<open>GetStandbyTxKey i\<close>; \<open>GetStandbyTxKey\<close> is injective and never equals the control
  key, so the slots are a map of their own, keyed by \<open>i\<close>.
\<close>

record AccountInfo =
  accNonce :: u64
  accBalance :: u256

record TrunkStore =
  worldAccounts :: "Address \<rightharpoonup> AccountInfo"
  standbyTxQueue :: "bytes option"
  standbyTxs :: "u64 \<rightharpoonup> txbytes"

text \<open>
  A context made by \<open>WithRbtCopy\<close> reads through to the trunk it was made from and
  buffers its writes. \<open>cachedEntries\<close> are the short keys of its rabbit store, each with
  its dirty flag, in the order \<open>ScanAllShortKeys\<close> presents them.
\<close>

type_synonym ShortKey = bytes

record Context =
  baseAccounts :: "Address \<rightharpoonup> AccountInfo"
  dirtyAccounts :: "Address \<rightharpoonup> AccountInfo"
  cachedEntries :: "(ShortKey \<times> bool) list"

definition WithRbtCopy :: "TrunkStore \<Rightarrow> Context" where
  "WithRbtCopy trunk =
     \<lparr>baseAccounts = worldAccounts trunk, dirtyAccounts = Map.empty, cachedEntries = []\<rparr>"

definition GetAccount :: "Context \<Rightarrow> Address \<Rightarrow> AccountInfo option" where
  "GetAccount c addr =
     (case dirtyAccounts c addr of
        Some acc \<Rightarrow> Some acc
      | None \<Rightarrow> baseAccounts c addr)"

definition SetAccount :: "Context \<Rightarrow> Address \<Rightarrow> AccountInfo \<Rightarrow> Context" where
  "SetAccount c addr acc = c\<lparr>dirtyAccounts := (dirtyAccounts c)(addr \<mapsto> acc)\<rparr>"

text \<open>\<open>ctx.Close(writeBack)\<close> and \<open>Rbt.CloseAndWriteBack(writeBack)\<close>.\<close>

definition Close :: "Context \<Rightarrow> bool \<Rightarrow> TrunkStore \<Rightarrow> TrunkStore" where
  "Close c writeBack trunk =
     (if writeBack then trunk\<lparr>worldAccounts := worldAccounts trunk ++ dirtyAccounts c\<rparr>
      else trunk)"

definition ZeroAccountInfo :: AccountInfo where
  "ZeroAccountInfo = \<lparr>accNonce = 0, accBalance = 0\<rparr>"

subsection \<open>Balance helpers (engine.go, lines 730-807)\<close>

definition Sep206Address :: Address where
  "Sep206Address = 0x2711"

text \<open>Fourteen zero bytes followed by the ASCII bytes of "system".\<close>

definition systemContractAddress :: Address where
  "systemContractAddress = 0x73797374656D"

definition updateBalance :: "Context \<Rightarrow> Address \<Rightarrow> u256 \<Rightarrow> bool \<Rightarrow> error + Context" where
  "updateBalance c address amount isAdd =
     (let acc = (case GetAccount c address of None \<Rightarrow> ZeroAccountInfo | Some a \<Rightarrow> a);
          s = accBalance acc
      in if isAdd then Inr (SetAccount c address (acc\<lparr>accBalance := s + amount\<rparr>))
         else if s < amount then Inl BalanceNotEnough
         else Inr (SetAccount c address (acc\<lparr>accBalance := s - amount\<rparr>)))"

definition SubSenderAccBalance :: "Context \<Rightarrow> Address \<Rightarrow> u256 \<Rightarrow> error + Context" where
  "SubSenderAccBalance c sender amount = updateBalance c sender amount False"

definition AddSystemAccBalance :: "Context \<Rightarrow> u256 \<Rightarrow> error + Context" where
  "AddSystemAccBalance c amount = updateBalance c systemContractAddress amount True"

definition GetBalanceAfterBchTransfer :: "Context \<Rightarrow> Address \<Rightarrow> u256 \<Rightarrow> u256" where
  "GetBalanceAfterBchTransfer c address txValue =
     (case GetAccount c address of
        None \<Rightarrow> 0
      | Some acc \<Rightarrow>
          (let out = accBalance acc
           in if out < txValue then 0 else out - txValue))"

subsection \<open>The gas-fee deductor (engine.go, lines 213-230 and 253-286)\<close>

text \<open>
  The scratch area of one Prepare worker (engine.go, lines 69-76). Its two maps are made
  by parallelReadAccounts and hold no nil balance. The field names carry a prime, the
  frontier having fields of the same names.
\<close>

record ctxAndAccounts =
  ctx :: Context
  accounts :: "Address list"
  changed :: bool
  totalGasFee :: u256
  addr2nonce' :: "Address \<rightharpoonup> u64"
  addr2Balance' :: "Address \<rightharpoonup> u256"

text \<open>\<open>m[k]\<close> as a value: the zero of the type when the key is missing.\<close>

definition mapValue :: "('k \<rightharpoonup> 'v::zero) \<Rightarrow> 'k \<Rightarrow> 'v" where
  "mapValue m k = (case m k of None \<Rightarrow> 0 | Some v \<Rightarrow> v)"

text \<open>
  The function returns Go's \<open>error\<close> (here \<open>Some err\<close>, or \<open>None\<close> for nil) and mutates
  the info and the worker's entry through their pointers; the model returns all three.
\<close>

definition deductGasFeeAndUpdateFrontier ::
  "Address \<Rightarrow> preparedInfo \<Rightarrow> ctxAndAccounts \<Rightarrow> error option \<times> preparedInfo \<times> ctxAndAccounts" where
  "deductGasFeeAndUpdateFrontier sender info entry =
     (let gasFee = ucast (Gas (tx info)) * GasPrice (tx info)
      in case SubSenderAccBalance (ctx entry) sender gasFee of
           Inl err \<Rightarrow>
             (Some err,
              info\<lparr>errorStr := ''not enough balance to pay gasfee''\<rparr>,
              entry\<lparr>addr2Balance' := (addr2Balance' entry)(sender \<mapsto> 0)\<rparr>)
         | Inr c \<Rightarrow>
             (let newBalance =
                (if To (tx info) = Sep206Address then 0
                 else (case addr2Balance' entry sender of
                         None \<Rightarrow> GetBalanceAfterBchTransfer c sender (Value (tx info))
                       | Some balance \<Rightarrow>
                           if balance < gasFee then 0
                           else (let balance1 = balance - gasFee;
                                     txValue = Value (tx info)
                                 in if balance1 < txValue then 0 else balance1 - txValue)))
              in (None,
                  info,
                  entry\<lparr>ctx := c,
                        addr2Balance' := (addr2Balance' entry)(sender \<mapsto> newBalance),
                        totalGasFee := totalGasFee entry + gasFee\<rparr>)))"

text \<open>
  The body of the innermost loop of Prepare's second parallel section (lines 214-229),
  for one info of a sender this worker owns.
\<close>

definition deductOne :: "preparedInfo \<Rightarrow> ctxAndAccounts \<Rightarrow> preparedInfo \<times> ctxAndAccounts" where
  "deductOne info entry =
     (if errorStr info \<noteq> [] then (info, entry)
      else
        (let sender = From (tx info)
         in if mapValue (addr2nonce' entry) sender \<noteq> Nonce (tx info)
            then (info\<lparr>errorStr := ''incorrect nonce''\<rparr>, entry)
            else
              (let entry1 = entry\<lparr>addr2nonce' :=
                              (addr2nonce' entry)(sender \<mapsto> mapValue (addr2nonce' entry) sender + 1)\<rparr>
               in case deductGasFeeAndUpdateFrontier sender info entry1 of
                    (Some err, info', entry') \<Rightarrow> (info', entry')
                  | (None, info', entry') \<Rightarrow>
                      (info'\<lparr>txBytes := ToBytes (tx info')\<rparr>, entry'\<lparr>changed := True\<rparr>))))"

subsection \<open>The reorderer (engine.go, lines 353-376)\<close>

text \<open>
  The generator of \<open>github.com/seehuhn/mt19937\<close> is a library outside the repository: it
  is a parameter, a type \<open>'g\<close> of generator states with the two operations the engine
  calls. \<open>Seed s\<close> is the state of \<open>mt19937.New()\<close> after \<open>rand.Seed(s)\<close>;
  \<open>Int63\<close> returns the next value, a non-negative \<open>int64\<close>, and the next state.
\<close>

record 'g mt19937 =
  Seed :: "u64 \<Rightarrow> 'g"
  Int63 :: "'g \<Rightarrow> nat \<times> 'g"

text \<open>
  The infos are handled through pointers (\<open>[]*preparedInfo\<close>). The functions of the
  reorderer are written over any type \<open>'p\<close> of pointers, with \<open>frm\<close> reading
  \<open>info.tx.From\<close> through the pointer.
\<close>

text \<open>The first loop (lines 357-364).\<close>

fun groupInfos ::
  "('p \<Rightarrow> Address) \<Rightarrow> 'p list \<Rightarrow> (Address \<rightharpoonup> 'p list) \<Rightarrow> Address list
     \<Rightarrow> (Address \<rightharpoonup> 'p list) \<times> Address list" where
  "groupInfos frm [] addr2Infos addrList = (addr2Infos, addrList)"
| "groupInfos frm (info # rest) addr2Infos addrList =
     (case addr2Infos (frm info) of
        Some infos \<Rightarrow> groupInfos frm rest (addr2Infos(frm info \<mapsto> infos @ [info])) addrList
      | None \<Rightarrow> groupInfos frm rest (addr2Infos(frm info \<mapsto> [info])) (addrList @ [frm info]))"

text \<open>
  The second loop (lines 367-371), by the number of iterations still to run. The body
  does not read the loop counter. With an empty list the loop does not run, so the
  remainder is never taken modulo zero.
\<close>

fun shuffle :: "'g mt19937 \<Rightarrow> nat \<Rightarrow> 'g \<Rightarrow> Address list \<Rightarrow> Address list" where
  "shuffle rnd 0 g addrList = addrList"
| "shuffle rnd (Suc n) g addrList =
     (let (x0, g1) = Int63 rnd g;
          r0 = x0 mod length addrList;
          (x1, g2) = Int63 rnd g1;
          r1 = x1 mod length addrList
      in shuffle rnd n g2 (addrList[r0 := addrList ! r1, r1 := addrList ! r0]))"

text \<open>\<open>addr2Infos[addr]\<close> as a value: the nil slice when the key is missing.\<close>

definition infosOf :: "(Address \<rightharpoonup> 'p list) \<Rightarrow> Address \<Rightarrow> 'p list" where
  "infosOf addr2Infos addr = (case addr2Infos addr of None \<Rightarrow> [] | Some infos \<Rightarrow> infos)"

definition reorderInfoList ::
  "'g mt19937 \<Rightarrow> ('p \<Rightarrow> Address) \<Rightarrow> 'p list \<Rightarrow> u64 \<Rightarrow> 'p list \<times> (Address \<rightharpoonup> 'p list)" where
  "reorderInfoList rnd frm infoList reorderSeed =
     (let (addr2Infos, addrList) = groupInfos frm infoList Map.empty [];
          shuffled = shuffle rnd (length addrList) (Seed rnd reorderSeed) addrList
      in (concat (map (infosOf addr2Infos) shuffled), addr2Infos))"

subsection \<open>The engine (engine.go, lines 33-55 and 156-172)\<close>

text \<open>
  Modelled from the spec: a signed transaction of go-ethereum, with the accessors the
  engine calls. \<open>GasPrice()\<close> and \<open>Value()\<close> are big integers; \<open>To()\<close> is nil for a
  contract creation.
\<close>

record GethTx =
  gHash :: "256 word"
  gNonce :: u64
  gGasPrice :: int
  gGas :: u64
  gTo :: "Address option"
  gValue :: int
  gData :: bytes

text \<open>
  The engine. \<open>signer\<close> is \<open>signer.Sender\<close>: the recovered address and whether the
  recovery succeeded. \<open>cleanCtx\<close> is nil until SetContext; its base store is the trunk.
  The round, runner and worker counts are Go \<open>int\<close>s that are never negative. The logger
  has no effect on the state and is left out.
\<close>

record txEngine =
  roundNum :: nat
  runnerNumber :: nat
  parallelNum :: nat
  cleanCtx :: "TrunkStore option"
  txList :: "GethTx list"
  committedTxs :: "Transaction list"
  signer :: "GethTx \<Rightarrow> Address \<times> bool"
  currentBlock :: "BlockInfo option"
  cumulativeGasUsed :: u64
  cumulativeFeeRefund :: "u256 option"
  cumulativeGasFee :: "u256 option"

definition SetContext :: "txEngine \<Rightarrow> TrunkStore \<Rightarrow> txEngine" where
  "SetContext exec trunk = exec\<lparr>cleanCtx := Some trunk\<rparr>"

definition CollectTx :: "txEngine \<Rightarrow> GethTx \<Rightarrow> txEngine" where
  "CollectTx exec gtx = exec\<lparr>txList := txList exec @ [gtx]\<rparr>"

definition getCurrHeight :: "txEngine \<Rightarrow> u64" where
  "getCurrHeight exec = (case currentBlock exec of Some b \<Rightarrow> Number b | None \<Rightarrow> 0)"

text \<open>
  \<open>GasUsedInfo\<close> (lines 718-723) dereferences \<open>cumulativeFeeRefund\<close> on both paths and
  \<open>cumulativeGasFee\<close> on the second.
\<close>

definition GasUsedInfo :: "txEngine \<Rightarrow> error + (u64 \<times> u256 \<times> u256)" where
  "GasUsedInfo exec =
     (if cumulativeGasFee exec = None
      then (case cumulativeFeeRefund exec of
              None \<Rightarrow> Inl NilPointerDereference
            | Some feeRefund \<Rightarrow> Inr (cumulativeGasUsed exec, feeRefund, 0))
      else (case cumulativeFeeRefund exec of
              None \<Rightarrow> Inl NilPointerDereference
            | Some feeRefund \<Rightarrow>
                (case cumulativeGasFee exec of
                   None \<Rightarrow> Inl NilPointerDereference
                 | Some gasFee \<Rightarrow> Inr (cumulativeGasUsed exec, feeRefund, gasFee))))"

subsection \<open>Inserting into the standby queue (engine.go, lines 378-419)\<close>

definition recordInvalidTx :: "txEngine \<Rightarrow> preparedInfo \<Rightarrow> txEngine" where
  "recordInvalidTx exec info =
     exec\<lparr>committedTxs := committedTxs exec @
       [\<lparr>Hash' = HashID (tx info),
         TransactionIndex = of_nat (length (committedTxs exec)),
         Nonce' = Nonce (tx info),
         BlockHash = (case currentBlock exec of None \<Rightarrow> 0 | Some b \<Rightarrow> Hash b),
         BlockNumber = getCurrHeight exec,
         From' = From (tx info),
         To' = To (tx info),
         Value' = Value (tx info),
         GasPrice' = GasPrice (tx info),
         Gas' = Gas (tx info),
         Input = Data (tx info),
         CumulativeGasUsed = cumulativeGasUsed exec,
         GasUsed' = 0,
         ContractAddress = 0,
         OutData' = [],
         Status' = ReceiptStatusFailed,
         StatusStr = errorStr info\<rparr>]\<rparr>"

text \<open>
  The loop of the update block (lines 381-392): the engine, the slots of the store and
  the local \<open>end\<close> are threaded through.
\<close>

fun insertLoop ::
  "preparedInfo list \<Rightarrow> txEngine \<Rightarrow> (u64 \<rightharpoonup> txbytes) \<Rightarrow> u64
     \<Rightarrow> txEngine \<times> (u64 \<rightharpoonup> txbytes) \<times> u64" where
  "insertLoop [] exec slots end' = (exec, slots, end')"
| "insertLoop (info # rest) exec slots end' =
     (if errorStr info \<noteq> []
      then insertLoop rest (recordInvalidTx exec info) slots end'
      else insertLoop rest exec (slots(end' \<mapsto> txBytes info)) (end' + 1))"

text \<open>
  \<open>binary.BigEndian\<close>: eight bytes, most significant first. \<open>Uint64\<close> panics on a
  slice of fewer than eight bytes; its callers below check the length first.
\<close>

definition BigEndian_Uint64 :: "bytes \<Rightarrow> u64" where
  "BigEndian_Uint64 b =
     ucast (b ! 7) OR push_bit 8 (ucast (b ! 6)) OR push_bit 16 (ucast (b ! 5)) OR
     push_bit 24 (ucast (b ! 4)) OR push_bit 32 (ucast (b ! 3)) OR push_bit 40 (ucast (b ! 2)) OR
     push_bit 48 (ucast (b ! 1)) OR push_bit 56 (ucast (b ! 0))"

definition BigEndian_PutUint64 :: "u64 \<Rightarrow> bytes" where
  "BigEndian_PutUint64 v =
     [ucast (drop_bit 56 v), ucast (drop_bit 48 v), ucast (drop_bit 40 v), ucast (drop_bit 32 v),
      ucast (drop_bit 24 v), ucast (drop_bit 16 v), ucast (drop_bit 8 v), ucast v]"

text \<open>
  \<open>startEnd\<close> has sixteen bytes or more wherever Prepare calls the function; the bytes
  8 to 15 are overwritten in place.
\<close>

definition insertToStandbyTxQ ::
  "txEngine \<Rightarrow> TrunkStore \<Rightarrow> preparedInfo list \<Rightarrow> bytes \<Rightarrow> u64 \<Rightarrow> txEngine \<times> TrunkStore" where
  "insertToStandbyTxQ exec trunk infoList startEnd end' =
     (let (exec', slots, end1) = insertLoop infoList exec (standbyTxs trunk) end';
          startEnd' = take 8 startEnd @ BigEndian_PutUint64 end1 @ drop 16 startEnd
      in (exec', trunk\<lparr>standbyTxs := slots, standbyTxQueue := Some startEnd'\<rparr>))"

subsection \<open>Runners and the EVM collaborator\<close>

text \<open>
  Modelled from the spec: the status domain of a runner (package \<open>types\<close>) is the closed
  set the spec lists.
\<close>

datatype Status =
    SUCCESS
  | REVERTED
  | ACCOUNT_NOT_EXIST
  | TX_NONCE_TOO_SMALL
  | TX_NONCE_TOO_LARGE
  | FAILED_TO_COMMIT
  | OTHER_EVM_FAILURE

text \<open>
  A live execution slot (\<open>TxRunner\<close>, declared in runner.go), with the fields engine.go
  reads; the logs and internal call traces are left out, as in \<open>Transaction\<close>.
\<close>

record TxRunner =
  Ctx :: Context
  Tx :: TxToRun
  Status :: Status
  GasUsed :: u64
  FeeRefund :: u256
  CreatedContractAddress :: Address
  OutData :: bytes

text \<open>
  The functions of the repository that engine.go calls and that are not in engine.go are
  parameters, collected in one record. \<open>runTx idx block ctx tx\<close> is the runner that
  \<open>runTx(idx, block)\<close> leaves in \<open>Runners[idx]\<close> when it finds there a fresh runner
  with the context \<open>ctx\<close> and the transaction \<open>tx\<close>.
\<close>

record Evm =
  runTx :: "nat \<Rightarrow> BlockInfo option \<Rightarrow> Context \<Rightarrow> TxToRun \<Rightarrow> TxRunner"
  GetGasFee :: "TxRunner \<Rightarrow> u256"
  StatusToStr :: "Status \<Rightarrow> string"
  StatusIsFailure :: "Status \<Rightarrow> bool"

text \<open>
  \<open>NewEbpTxExec\<close> also makes the process-wide slice \<open>Runners\<close>, all nil; the model
  returns it beside the engine. Functions that use \<open>Runners\<close> take and return it.
\<close>

definition NewEbpTxExec ::
  "nat \<Rightarrow> nat \<Rightarrow> nat \<Rightarrow> nat \<Rightarrow> (GethTx \<Rightarrow> Address \<times> bool) \<Rightarrow> TxRunner option list \<times> txEngine" where
  "NewEbpTxExec exeRoundCount runnerNum parallelN defaultTxListCap s =
     (replicate runnerNum None,
      \<lparr>roundNum = exeRoundCount,
       runnerNumber = runnerNum,
       parallelNum = parallelN,
       cleanCtx = None,
       txList = [],
       committedTxs = [],
       signer = s,
       currentBlock = None,
       cumulativeGasUsed = 0,
       cumulativeFeeRefund = None,
       cumulativeGasFee = None\<rparr>)"

subsection \<open>The standby queue range (engine.go, lines 457-477)\<close>

record TxRange =
  start :: u64
  end' :: u64

text \<open>
  \<open>startEnd[:8]\<close> and \<open>startEnd[8:]\<close> panic on a slice shorter than eight bytes, and
  \<open>Uint64\<close> on a remainder shorter than eight.
\<close>

definition getStandbyQueueRange :: "TrunkStore \<Rightarrow> error + (u64 \<times> u64)" where
  "getStandbyQueueRange trunk =
     (case standbyTxQueue trunk of
        None \<Rightarrow> Inr (0, 0)
      | Some startEnd \<Rightarrow>
          if length startEnd < 16 then Inl IndexOutOfRange
          else Inr (BigEndian_Uint64 (take 8 startEnd), BigEndian_Uint64 (drop 8 startEnd)))"

definition setStandbyQueueRange :: "TrunkStore \<Rightarrow> u64 \<Rightarrow> u64 \<Rightarrow> TrunkStore" where
  "setStandbyQueueRange trunk start0 end0 =
     trunk\<lparr>standbyTxQueue := Some (BigEndian_PutUint64 start0 @ BigEndian_PutUint64 end0)\<rparr>"

subsection \<open>One round (engine.go, lines 479-603)\<close>

text \<open>
  \<open>loadStandbyTxs\<close>: \<open>make\<close> panics on a length that does not fit an \<open>int\<close>, which is
  what \<open>end - start\<close> is when the range is reversed; \<open>FromBytes\<close> fails on a slot that
  holds no transaction.
\<close>

fun decodeAll :: "txbytes list \<Rightarrow> error + TxToRun list" where
  "decodeAll [] = Inr []"
| "decodeAll (bz # rest) =
     (case FromBytes bz of
        None \<Rightarrow> Inl DecodeFailed
      | Some t \<Rightarrow> (case decodeAll rest of Inl e \<Rightarrow> Inl e | Inr ts \<Rightarrow> Inr (t # ts)))"

definition storeGet :: "(u64 \<rightharpoonup> txbytes) \<Rightarrow> u64 \<Rightarrow> txbytes" where
  "storeGet slots i = (case slots i of None \<Rightarrow> nilBytes | Some bz \<Rightarrow> bz)"

definition loadStandbyTxs :: "txEngine \<Rightarrow> TrunkStore \<Rightarrow> TxRange \<Rightarrow> error + TxToRun list" where
  "loadStandbyTxs exec trunk txRange =
     (let limit = start txRange + of_nat (runnerNumber exec);
          end0 = (if end' txRange > limit then limit else end' txRange)
      in if end0 < start txRange then Inl MakesliceLenOutOfRange
         else decodeAll
                (map (\<lambda>j. storeGet (standbyTxs trunk) (start txRange + of_nat j))
                   [0 ..< unat (end0 - start txRange)]))"

text \<open>
  \<open>runTxInParallel\<close>. Each slot of the bundle is claimed by exactly one worker, which
  writes \<open>Runners[myIdx]\<close> only; the trunk does not change while the workers run. The
  model handles the slots in slot order and returns, beside \<open>Runners\<close> and \<open>kvCount\<close>,
  the slots for which \<open>runTx\<close> was called. The two warm-up calls (PrepareForDeletion,
  PrepareForUpdate) do not change what the store holds.
\<close>

definition newRunner :: "Context \<Rightarrow> TxToRun \<Rightarrow> Status \<Rightarrow> TxRunner" where
  "newRunner c t st =
     \<lparr>Ctx = c, Tx = t, Status = st, GasUsed = 0, FeeRefund = 0,
      CreatedContractAddress = 0, OutData = []\<rparr>"

fun runSlots ::
  "Evm \<Rightarrow> TrunkStore \<Rightarrow> BlockInfo option \<Rightarrow> TxToRun list \<Rightarrow> nat list
     \<Rightarrow> TxRunner option list \<times> nat \<times> nat list
     \<Rightarrow> error + (TxRunner option list \<times> nat \<times> nat list)" where
  "runSlots evm trunk currBlock txBundle [] st = Inr st"
| "runSlots evm trunk currBlock txBundle (myIdx # rest) (Runners, kvCount, calls) =
     (if myIdx \<ge> length Runners then Inl IndexOutOfRange
      else if myIdx > 0 \<and> From (txBundle ! (myIdx - 1)) = From (txBundle ! myIdx)
      then runSlots evm trunk currBlock txBundle rest
             (Runners[myIdx := Some (newRunner (WithRbtCopy trunk) (txBundle ! myIdx) TX_NONCE_TOO_LARGE)],
              kvCount, calls)
      else (let r = runTx evm myIdx currBlock (WithRbtCopy trunk) (txBundle ! myIdx)
            in runSlots evm trunk currBlock txBundle rest
                 (Runners[myIdx := Some r], kvCount + length (cachedEntries (Ctx r)), calls @ [myIdx])))"

definition runTxInParallel ::
  "Evm \<Rightarrow> TrunkStore \<Rightarrow> BlockInfo option \<Rightarrow> TxToRun list \<Rightarrow> TxRunner option list
     \<Rightarrow> error + (TxRunner option list \<times> nat \<times> nat list)" where
  "runTxInParallel evm trunk currBlock txBundle Runners =
     runSlots evm trunk currBlock txBundle [0 ..< length txBundle] (Runners, 0, [])"

text \<open>
  Modelled from the spec: \<open>Rbt.ScanAllShortKeys(fn)\<close> of the rabbit store calls \<open>fn\<close> on
  each cached entry, with its short key and dirty flag, until \<open>fn\<close> answers stop. The
  callback is a closure; the variables it captures are its state \<open>'s\<close>. The result is
  the final state and the entries the callback was called on.
\<close>

fun ScanAllShortKeys ::
  "(ShortKey \<times> bool) list \<Rightarrow> (ShortKey \<Rightarrow> bool \<Rightarrow> 's \<Rightarrow> bool \<times> 's) \<Rightarrow> 's
     \<Rightarrow> 's \<times> (ShortKey \<times> bool) list" where
  "ScanAllShortKeys [] fn s = (s, [])"
| "ScanAllShortKeys ((key, dirty) # rest) fn s =
     (case fn key dirty s of
        (stop, s') \<Rightarrow>
          if stop then (s', [(key, dirty)])
          else (case ScanAllShortKeys rest fn s' of (s'', seen) \<Rightarrow> (s'', (key, dirty) # seen)))"

text \<open>\<open>binary.LittleEndian.Uint64(key[:])\<close>: the first eight bytes of the short key.\<close>

definition LittleEndian_Uint64 :: "bytes \<Rightarrow> u64" where
  "LittleEndian_Uint64 b =
     ucast (b ! 0) OR push_bit 8 (ucast (b ! 1)) OR push_bit 16 (ucast (b ! 2)) OR
     push_bit 24 (ucast (b ! 3)) OR push_bit 32 (ucast (b ! 4)) OR push_bit 40 (ucast (b ! 5)) OR
     push_bit 48 (ucast (b ! 6)) OR push_bit 56 (ucast (b ! 7))"

text \<open>
  The first callback (lines 559-568) captures \<open>touchedSet\<close>, \<open>canCommit\<close> and the
  runner's status; the second (lines 570-576) captures \<open>touchedSet\<close>.
\<close>

definition conflictFn ::
  "u64 set \<Rightarrow> ShortKey \<Rightarrow> bool \<Rightarrow> bool \<times> Status \<Rightarrow> bool \<times> (bool \<times> Status)" where
  "conflictFn touchedSet key dirty s =
     (let k = LittleEndian_Uint64 key
      in if k \<in> touchedSet then (True, (False, FAILED_TO_COMMIT)) else (False, s))"

definition recordFn :: "ShortKey \<Rightarrow> bool \<Rightarrow> u64 set \<Rightarrow> bool \<times> u64 set" where
  "recordFn key dirty touchedSet =
     (if dirty then (False, insert (LittleEndian_Uint64 key) touchedSet)
      else (False, touchedSet))"

text \<open>
  The body of the loop over the bundle (lines 558-578) for one runner: the runner with
  its new status, \<open>canCommit\<close> and the new \<open>touchedSet\<close>.
\<close>

definition checkSlot :: "TxRunner \<Rightarrow> u64 set \<Rightarrow> TxRunner \<times> bool \<times> u64 set" where
  "checkSlot r touchedSet =
     (let (canCommit, st) =
            fst (ScanAllShortKeys (cachedEntries (Ctx r)) (conflictFn touchedSet) (True, Status r));
          touchedSet' =
            (if canCommit then fst (ScanAllShortKeys (cachedEntries (Ctx r)) recordFn touchedSet)
             else touchedSet)
      in (r\<lparr>Status := st\<rparr>, canCommit, touchedSet'))"

text \<open>
  The loop (lines 557-581). The goroutine that receives \<open>indexAndBool\<close> closes the
  contexts in the order the loop sends them, which is slot order; the model writes each
  context back as its slot is decided.
\<close>

fun checkTxDeps ::
  "nat list \<Rightarrow> TxRunner option list \<times> u64 set \<times> TrunkStore
     \<Rightarrow> error + (TxRunner option list \<times> u64 set \<times> TrunkStore)" where
  "checkTxDeps [] st = Inr st"
| "checkTxDeps (idx # rest) (Runners, touchedSet, trunk) =
     (if idx \<ge> length Runners then Inl IndexOutOfRange
      else case Runners ! idx of
             None \<Rightarrow> Inl NilPointerDereference
           | Some r \<Rightarrow>
               (case checkSlot r touchedSet of
                  (r', canCommit, touchedSet') \<Rightarrow>
                    checkTxDeps rest
                      (Runners[idx := Some r'], touchedSet', Close (Ctx r') canCommit trunk)))"

text \<open>
  The update block (lines 584-602). The state is \<open>Runners\<close>, the range, the slots of
  the store and the engine (for its two cumulative counters). \<open>updateSlot\<close> is the body
  of the loop for the slot \<open>idx\<close> holding the transaction \<open>t\<close>.
\<close>

fun updateSlot ::
  "Evm \<Rightarrow> nat \<Rightarrow> TxToRun
     \<Rightarrow> TxRunner option list \<times> TxRange \<times> (u64 \<rightharpoonup> txbytes) \<times> txEngine
     \<Rightarrow> error + (TxRunner option list \<times> TxRange \<times> (u64 \<rightharpoonup> txbytes) \<times> txEngine)" where
  "updateSlot evm idx t (Runners, txRange, slots, exec) =
     (if idx \<ge> length Runners then Inl IndexOutOfRange
      else case Runners ! idx of
             None \<Rightarrow> Inl NilPointerDereference
           | Some r \<Rightarrow>
               (let status = Status r;
                    k = start txRange;
                    txRange1 = txRange\<lparr>start := start txRange + 1\<rparr>;
                    slots1 = slots(k := None)
                in if status = FAILED_TO_COMMIT \<or> status = TX_NONCE_TOO_LARGE
                   then (let newK = end' txRange1;
                             txRange2 = txRange1\<lparr>end' := end' txRange1 + 1\<rparr>
                         in Inr (Runners[idx := None], txRange2, slots1(newK \<mapsto> ToBytes t), exec))
                   else if status = ACCOUNT_NOT_EXIST \<or> status = TX_NONCE_TOO_SMALL
                   then (case cumulativeGasFee exec of
                           None \<Rightarrow> Inl NilPointerDereference
                         | Some fee \<Rightarrow>
                             Inr (Runners[idx := None], txRange1, slots1,
                                  exec\<lparr>cumulativeGasUsed := cumulativeGasUsed exec + Gas (Tx r),
                                       cumulativeGasFee := Some (fee + GetGasFee evm r)\<rparr>))
                   else Inr (Runners, txRange1, slots1, exec)))"

fun updateStandbyQ ::
  "Evm \<Rightarrow> (nat \<times> TxToRun) list
     \<Rightarrow> TxRunner option list \<times> TxRange \<times> (u64 \<rightharpoonup> txbytes) \<times> txEngine
     \<Rightarrow> error + (TxRunner option list \<times> TxRange \<times> (u64 \<rightharpoonup> txbytes) \<times> txEngine)" where
  "updateStandbyQ evm [] st = Inr st"
| "updateStandbyQ evm ((idx, t) # rest) st =
     (case updateSlot evm idx t st of
        Inl e \<Rightarrow> Inl e
      | Inr st' \<Rightarrow> updateStandbyQ evm rest st')"

definition checkTxDepsAndUptStandbyQ ::
  "Evm \<Rightarrow> txEngine \<Rightarrow> TrunkStore \<Rightarrow> TxRunner option list \<Rightarrow> TxRange \<Rightarrow> TxToRun list
     \<Rightarrow> error + (txEngine \<times> TrunkStore \<times> TxRunner option list \<times> TxRange)" where
  "checkTxDepsAndUptStandbyQ evm exec trunk Runners txRange txBundle =
     (case checkTxDeps [0 ..< length txBundle] (Runners, {}, trunk) of
        Inl e \<Rightarrow> Inl e
      | Inr (Runners1, touchedSet, trunk1) \<Rightarrow>
          (case updateStandbyQ evm (zip [0 ..< length txBundle] txBundle)
                  (Runners1, txRange, standbyTxs trunk1, exec) of
             Inl e \<Rightarrow> Inl e
           | Inr (Runners2, txRange2, slots2, exec2) \<Rightarrow>
               Inr (exec2, trunk1\<lparr>standbyTxs := slots2\<rparr>, Runners2, txRange2)))"

definition executeOneRound ::
  "Evm \<Rightarrow> txEngine \<Rightarrow> TrunkStore \<Rightarrow> TxRunner option list \<Rightarrow> TxRange
     \<Rightarrow> error + (txEngine \<times> TrunkStore \<times> TxRunner option list \<times> TxRange \<times> nat)" where
  "executeOneRound evm exec trunk Runners txRange =
     (case loadStandbyTxs exec trunk txRange of
        Inl e \<Rightarrow> Inl e
      | Inr txBundle \<Rightarrow>
          (case runTxInParallel evm trunk (currentBlock exec) txBundle Runners of
             Inl e \<Rightarrow> Inl e
           | Inr (Runners1, kvCount, calls) \<Rightarrow>
               (case checkTxDepsAndUptStandbyQ evm exec trunk Runners1 txRange txBundle of
                  Inl e \<Rightarrow> Inl e
                | Inr (exec2, trunk2, Runners2, txRange2) \<Rightarrow>
                    Inr (exec2, trunk2, Runners2, txRange2, length txBundle))))"

subsection \<open>Execute (engine.go, lines 421-455 and 605-658)\<close>

text \<open>
  The inner loop of Execute (lines 445-451): the runners left in the first \<open>numTx\<close>
  slots are moved to the committable list.
\<close>

fun takeRunners ::
  "nat list \<Rightarrow> TxRunner option list \<times> TxRunner list \<Rightarrow> error + (TxRunner option list \<times> TxRunner list)" where
  "takeRunners [] st = Inr st"
| "takeRunners (i # rest) (Runners, committableRunnerList) =
     (if i \<ge> length Runners then Inl IndexOutOfRange
      else case Runners ! i of
             None \<Rightarrow> takeRunners rest (Runners, committableRunnerList)
           | Some r \<Rightarrow> takeRunners rest (Runners[i := None], committableRunnerList @ [r]))"

text \<open>The loop over the rounds (lines 440-452), by the number of rounds still to run.\<close>

fun rounds ::
  "Evm \<Rightarrow> nat \<Rightarrow> txEngine \<times> TrunkStore \<times> TxRunner option list \<times> TxRange \<times> TxRunner list
     \<Rightarrow> error + (txEngine \<times> TrunkStore \<times> TxRunner option list \<times> TxRange \<times> TxRunner list)" where
  "rounds evm 0 st = Inr st"
| "rounds evm (Suc n) (exec, trunk, Runners, txRange, committableRunnerList) =
     (if start txRange = end' txRange
      then Inr (exec, trunk, Runners, txRange, committableRunnerList)
      else case executeOneRound evm exec trunk Runners txRange of
             Inl e \<Rightarrow> Inl e
           | Inr (exec1, trunk1, Runners1, txRange1, numTx) \<Rightarrow>
               (case takeRunners [0 ..< numTx] (Runners1, committableRunnerList) of
                  Inl e \<Rightarrow> Inl e
                | Inr (Runners2, committable2) \<Rightarrow>
                    rounds evm n (exec1, trunk1, Runners2, txRange1, committable2)))"

fun collectCommittableTxs :: "Evm \<Rightarrow> (nat \<times> TxRunner) list \<Rightarrow> txEngine \<Rightarrow> error + txEngine" where
  "collectCommittableTxs evm [] exec = Inr exec"
| "collectCommittableTxs evm ((idx, runner) # rest) exec =
     (case (cumulativeFeeRefund exec, cumulativeGasFee exec, currentBlock exec) of
        (Some refund, Some fee, Some blk) \<Rightarrow>
          (let gasUsed = cumulativeGasUsed exec + GasUsed runner;
               committed =
                 \<lparr>Hash' = HashID (Tx runner),
                  TransactionIndex = of_nat idx,
                  Nonce' = Nonce (Tx runner),
                  BlockHash = Hash blk,
                  BlockNumber = Number blk,
                  From' = From (Tx runner),
                  To' = To (Tx runner),
                  Value' = Value (Tx runner),
                  GasPrice' = GasPrice (Tx runner),
                  Gas' = Gas (Tx runner),
                  Input = Data (Tx runner),
                  CumulativeGasUsed = gasUsed,
                  GasUsed' = GasUsed runner,
                  ContractAddress = CreatedContractAddress runner,
                  OutData' = OutData runner,
                  Status' = (if StatusIsFailure evm (Status runner) then ReceiptStatusFailed
                             else ReceiptStatusSuccessful),
                  StatusStr = StatusToStr evm (Status runner)\<rparr>
           in collectCommittableTxs evm rest
                (exec\<lparr>cumulativeGasUsed := gasUsed,
                      cumulativeFeeRefund := Some (refund + FeeRefund runner),
                      cumulativeGasFee := Some (fee + GetGasFee evm runner),
                      committedTxs := committedTxs exec @ [committed]\<rparr>))
      | _ \<Rightarrow> Inl NilPointerDereference)"

text \<open>
  Execute. The first five assignments (lines 423-427) come before anything that can
  panic. The trunk is the base store of \<open>cleanCtx\<close>; the engine holds it again when
  Execute returns.
\<close>

definition Execute ::
  "Evm \<Rightarrow> BlockInfo option \<Rightarrow> txEngine \<times> TxRunner option list
     \<Rightarrow> error + (txEngine \<times> TxRunner option list)" where
  "Execute evm currBlock st =
     (let exec0 = fst st; Runners = snd st;
          exec = exec0\<lparr>committedTxs := [],
                       cumulativeGasUsed := 0,
                       cumulativeFeeRefund := Some 0,
                       cumulativeGasFee := Some 0,
                       currentBlock := currBlock\<rparr>
      in case cleanCtx exec of
           None \<Rightarrow> Inl NilPointerDereference
         | Some trunk \<Rightarrow>
             (case getStandbyQueueRange trunk of
                Inl e \<Rightarrow> Inl e
              | Inr (startKey, endKey) \<Rightarrow>
                  if startKey = endKey then Inr (exec, Runners)
                  else
                    (case rounds evm (roundNum exec)
                            (exec, trunk, Runners, \<lparr>start = startKey, end' = endKey\<rparr>, []) of
                       Inl e \<Rightarrow> Inl e
                     | Inr (exec1, trunk1, Runners1, txRange, committableRunnerList) \<Rightarrow>
                         (let trunk2 = setStandbyQueueRange trunk1 (start txRange) (end' txRange)
                          in case collectCommittableTxs evm
                                    (zip [0 ..< length committableRunnerList] committableRunnerList)
                                    (exec1\<lparr>cleanCtx := Some trunk2\<rparr>) of
                               Inl e \<Rightarrow> Inl e
                             | Inr exec2 \<Rightarrow> Inr (exec2, Runners1)))))"

subsection \<open>Prepare (engine.go, lines 174-251 and 295-351)\<close>

text \<open>
  Modelled from the spec: \<open>TxToRun.FromGethTx\<close> (package \<open>types\<close>) copies the fields
  of the signed transaction; a nil \<open>To\<close> becomes the zero address.
\<close>

definition FromGethTx :: "GethTx \<Rightarrow> Address \<Rightarrow> u64 \<Rightarrow> TxToRun" where
  "FromGethTx gtx sender height =
     \<lparr>HashID = gHash gtx,
      From = sender,
      To = (case gTo gtx of None \<Rightarrow> 0 | Some a \<Rightarrow> a),
      Nonce = gNonce gtx,
      Value = word_of_int (gValue gtx),
      GasPrice = word_of_int (gGasPrice gtx),
      Gas = gGas gtx,
      Data = gData gtx,
      Height = height\<rparr>"

text \<open>\<open>big.Int.IsInt64\<close>, and the comparison with \<open>int64(minGasPrice)\<close>.\<close>

definition IsInt64 :: "int \<Rightarrow> bool" where
  "IsInt64 x = (- (2 ^ 63) \<le> x \<and> x < 2 ^ 63)"

text \<open>
  The body of a worker's loop in parallelReadAccounts (lines 317-347) for one
  transaction: its info, and the worker's entry.
\<close>

definition readAccount ::
  "txEngine \<Rightarrow> u64 \<Rightarrow> u64 \<Rightarrow> GethTx \<Rightarrow> ctxAndAccounts \<Rightarrow> preparedInfo \<times> ctxAndAccounts" where
  "readAccount exec minGasPrice maxTxGasLimit gtx entry =
     (let (sender, ok) = signer exec gtx;
          info = \<lparr>tx = FromGethTx gtx sender (getCurrHeight exec), txBytes = nilBytes, errorStr = []\<rparr>
      in if \<not> ok then (info\<lparr>errorStr := ''invalid signature''\<rparr>, entry)
         else if \<not> IsInt64 (gGasPrice gtx) \<or> gGasPrice gtx < sint minGasPrice
         then (info\<lparr>errorStr := ''invalid gas price''\<rparr>, entry)
         else if gGas gtx > maxTxGasLimit
         then (info\<lparr>errorStr := ''invalid gas limit''\<rparr>, entry)
         else (case GetAccount (ctx entry) sender of
                 None \<Rightarrow> (info\<lparr>errorStr := ''non-existent account''\<rparr>, entry)
               | Some acc \<Rightarrow>
                   (info,
                    if addr2nonce' entry sender = None
                    then entry\<lparr>accounts := accounts entry @ [sender],
                               addr2nonce' := (addr2nonce' entry)(sender \<mapsto> accNonce acc),
                               addr2Balance' := (addr2Balance' entry)(sender \<mapsto> accBalance acc)\<rparr>
                    else entry)))"

text \<open>
  The workers claim the transactions through a shared atomic counter, so which worker
  handles which index is not determined: \<open>sched i\<close> names the worker of index \<open>i\<close>
  (taken modulo the number of workers). A worker handles its indices in increasing
  order and touches its own entry only.
\<close>

fun readAccounts ::
  "txEngine \<Rightarrow> u64 \<Rightarrow> u64 \<Rightarrow> (nat \<Rightarrow> nat) \<Rightarrow> nat \<Rightarrow> GethTx list \<Rightarrow> ctxAndAccounts list
     \<Rightarrow> preparedInfo list \<times> ctxAndAccounts list" where
  "readAccounts exec minGasPrice maxTxGasLimit sched myIdx [] ctxAA = ([], ctxAA)"
| "readAccounts exec minGasPrice maxTxGasLimit sched myIdx (gtx # rest) ctxAA =
     (let workerId = sched myIdx mod length ctxAA;
          (info, entry) = readAccount exec minGasPrice maxTxGasLimit gtx (ctxAA ! workerId);
          (infoList, ctxAA') =
             readAccounts exec minGasPrice maxTxGasLimit sched (Suc myIdx) rest (ctxAA[workerId := entry])
      in (info # infoList, ctxAA'))"

text \<open>\<open>len(exec.txList)/exec.parallelNum\<close> panics when there is no worker.\<close>

definition parallelReadAccounts ::
  "txEngine \<Rightarrow> TrunkStore \<Rightarrow> (nat \<Rightarrow> nat) \<Rightarrow> u64 \<Rightarrow> u64
     \<Rightarrow> error + (preparedInfo list \<times> ctxAndAccounts list)" where
  "parallelReadAccounts exec trunk sched minGasPrice maxTxGasLimit =
     (if parallelNum exec = 0 then Inl IntegerDivideByZero
      else Inr (readAccounts exec minGasPrice maxTxGasLimit sched 0 (txList exec)
                  (replicate (parallelNum exec)
                     \<lparr>ctx = WithRbtCopy trunk, accounts = [], changed = False, totalGasFee = 0,
                      addr2nonce' = Map.empty, addr2Balance' = Map.empty\<rparr>)))"

text \<open>The map from an address to the first worker that preloaded it (lines 182-190).\<close>

fun addr2idxOfAccounts :: "nat \<Rightarrow> Address list \<Rightarrow> (Address \<rightharpoonup> nat) \<Rightarrow> (Address \<rightharpoonup> nat)" where
  "addr2idxOfAccounts idx [] addr2idx = addr2idx"
| "addr2idxOfAccounts idx (addr # rest) addr2idx =
     (case addr2idx addr of
        None \<Rightarrow> addr2idxOfAccounts idx rest (addr2idx(addr \<mapsto> idx))
      | Some _ \<Rightarrow> addr2idxOfAccounts idx rest addr2idx)"

fun addr2idxOf :: "(nat \<times> ctxAndAccounts) list \<Rightarrow> (Address \<rightharpoonup> nat) \<Rightarrow> (Address \<rightharpoonup> nat)" where
  "addr2idxOf [] addr2idx = addr2idx"
| "addr2idxOf ((idx, entry) # rest) addr2idx =
     addr2idxOf rest (addr2idxOfAccounts idx (accounts entry) addr2idx)"

text \<open>
  The second parallel section (lines 202-232). The infos are shared through pointers:
  \<open>infos\<close> is the list of the infos in the order of \<open>infoList\<close>, and a pointer is an
  index into it. Worker \<open>idx\<close> changes its own entry and the infos of the senders it
  owns; the model runs the workers one after the other.
\<close>

fun deductInfos ::
  "nat list \<Rightarrow> preparedInfo list \<times> ctxAndAccounts \<Rightarrow> preparedInfo list \<times> ctxAndAccounts" where
  "deductInfos [] st = st"
| "deductInfos (p # rest) (infos, entry) =
     (case deductOne (infos ! p) entry of
        (info', entry') \<Rightarrow> deductInfos rest (infos[p := info'], entry'))"

fun deductAccounts ::
  "(Address \<rightharpoonup> nat) \<Rightarrow> (Address \<rightharpoonup> nat list) \<Rightarrow> nat \<Rightarrow> Address list
     \<Rightarrow> preparedInfo list \<times> ctxAndAccounts \<Rightarrow> preparedInfo list \<times> ctxAndAccounts" where
  "deductAccounts addr2idx addr2Infos idx [] st = st"
| "deductAccounts addr2idx addr2Infos idx (addr # rest) st =
     (if mapValue addr2idx addr \<noteq> idx
      then deductAccounts addr2idx addr2Infos idx rest st
      else deductAccounts addr2idx addr2Infos idx rest (deductInfos (infosOf addr2Infos addr) st))"

fun deductWorkers ::
  "(Address \<rightharpoonup> nat) \<Rightarrow> (Address \<rightharpoonup> nat list) \<Rightarrow> nat list
     \<Rightarrow> preparedInfo list \<times> ctxAndAccounts list \<Rightarrow> preparedInfo list \<times> ctxAndAccounts list" where
  "deductWorkers addr2idx addr2Infos [] st = st"
| "deductWorkers addr2idx addr2Infos (idx # rest) (infos, ctxAA) =
     (case deductAccounts addr2idx addr2Infos idx (accounts (ctxAA ! idx)) (infos, ctxAA ! idx) of
        (infos', entry') \<Rightarrow>
          deductWorkers addr2idx addr2Infos rest (infos', ctxAA[idx := entry']))"

text \<open>Closing the workers' contexts (lines 233-235) and summing their fees (239-242).\<close>

fun closeAll :: "ctxAndAccounts list \<Rightarrow> TrunkStore \<Rightarrow> TrunkStore" where
  "closeAll [] trunk = trunk"
| "closeAll (entry # rest) trunk = closeAll rest (Close (ctx entry) (changed entry) trunk)"

fun sumGasFee :: "ctxAndAccounts list \<Rightarrow> u256 \<Rightarrow> u256" where
  "sumGasFee [] fee = fee"
| "sumGasFee (entry # rest) fee = sumGasFee rest (fee + totalGasFee entry)"

definition NewFrontierWithCtxAA :: "ctxAndAccounts list \<Rightarrow> (Address \<rightharpoonup> nat) \<Rightarrow> frontier option" where
  "NewFrontierWithCtxAA ctxAA addr2idx =
     Some \<lparr>addr2nonce =
             Some (\<lambda>addr. case addr2idx addr of
                            None \<Rightarrow> None
                          | Some idx \<Rightarrow> addr2nonce' (ctxAA ! idx) addr),
           addr2Balance =
             Some (\<lambda>addr. case addr2idx addr of
                            None \<Rightarrow> None
                          | Some idx \<Rightarrow>
                              (case addr2nonce' (ctxAA ! idx) addr of
                                 None \<Rightarrow> None
                               | Some _ \<Rightarrow> Some (Some (mapValue (addr2Balance' (ctxAA ! idx)) addr)))),
           addr2Gas = Some Map.empty\<rparr>"

text \<open>
  The part of Prepare between the two parallel sections and the second section itself
  (lines 182-232, the reading of the queue's end apart): the reordered list of pointers,
  the infos and the entries as the workers leave them, and \<open>addr2idx\<close>. The warm-up of
  the standby slots does not change what the store holds.
\<close>

definition deductGasFees ::
  "'g mt19937 \<Rightarrow> u64 \<Rightarrow> nat \<Rightarrow> preparedInfo list \<Rightarrow> ctxAndAccounts list
     \<Rightarrow> nat list \<times> preparedInfo list \<times> ctxAndAccounts list \<times> (Address \<rightharpoonup> nat)" where
  "deductGasFees rnd reorderSeed parallelN infoList ctxAA =
     (let addr2idx = addr2idxOf (zip [0 ..< length ctxAA] ctxAA) Map.empty;
          reordered = reorderInfoList rnd (\<lambda>p. From (tx (infoList ! p)))
                        [0 ..< length infoList] reorderSeed;
          deducted = deductWorkers addr2idx (snd reordered) [0 ..< parallelN] (infoList, ctxAA)
      in (fst reordered, fst deducted, snd deducted, addr2idx))"

text \<open>
  Lines 233-245: the workers' contexts are closed, each written back when it changed,
  and the sum of the workers' fees is credited to the system account through a fresh
  context, which is written back.
\<close>

definition creditSystemAccount :: "ctxAndAccounts list \<Rightarrow> TrunkStore \<Rightarrow> TrunkStore" where
  "creditSystemAccount ctxAA trunk =
     (let trunk1 = closeAll ctxAA trunk;
          totalFee = sumGasFee ctxAA 0;
          c = WithRbtCopy trunk1;
          c1 = (case AddSystemAccBalance c totalFee of Inl e \<Rightarrow> c | Inr c' \<Rightarrow> c')
      in Close c1 True trunk1)"

text \<open>
  The end of the queue as Prepare reads it (lines 193-199): with eight bytes or more
  the second half of the control value, and \<open>Uint64\<close> panics when that half is
  shorter than eight bytes; otherwise zero, and sixteen zero bytes stand for the value.
\<close>

definition readQueueEnd :: "TrunkStore \<Rightarrow> error + (bytes \<times> u64)" where
  "readQueueEnd trunk =
     (let startEndBz = (case standbyTxQueue trunk of None \<Rightarrow> [] | Some bz \<Rightarrow> bz)
      in if 8 \<le> length startEndBz
         then (if length startEndBz < 16 then Inl IndexOutOfRange
               else Inr (startEndBz, BigEndian_Uint64 (drop 8 startEndBz)))
         else Inr (replicate 16 0, 0))"

text \<open>
  Prepare. The result is the engine, the infos as the workers left them (in the order
  of \<open>txList\<close>) and the frontier.
\<close>

definition Prepare ::
  "'g mt19937 \<Rightarrow> (nat \<Rightarrow> nat) \<Rightarrow> u64 \<Rightarrow> u64 \<Rightarrow> u64 \<Rightarrow> txEngine
     \<Rightarrow> error + (txEngine \<times> preparedInfo list \<times> frontier option)" where
  "Prepare rnd sched reorderSeed minGasPrice maxTxGasLimit exec =
     (case cleanCtx exec of
        None \<Rightarrow> Inl NilPointerDereference
      | Some trunk \<Rightarrow>
          if txList exec = [] then Inr (exec, [], GetEmptyFrontier)
          else
            (case parallelReadAccounts exec trunk sched minGasPrice maxTxGasLimit of
               Inl e \<Rightarrow> Inl e
             | Inr (infoList, ctxAA) \<Rightarrow>
                 (case readQueueEnd trunk of
                    Inl e \<Rightarrow> Inl e
                  | Inr (startEnd, queueEnd) \<Rightarrow>
                      (case deductGasFees rnd reorderSeed (parallelNum exec) infoList ctxAA of
                         (reorderedList, infos, ctxAA1, addr2idx) \<Rightarrow>
                           (case insertToStandbyTxQ exec (creditSystemAccount ctxAA1 trunk)
                                   (map (\<lambda>p. infos ! p) reorderedList) startEnd queueEnd of
                              (exec1, trunk3) \<Rightarrow>
                                Inr (exec1\<lparr>txList := [], cleanCtx := Some trunk3\<rparr>,
                                     infos,
                                     NewFrontierWithCtxAA ctxAA1 addr2idx))))))"

section \<open>Notions of the specification used in the statements\<close>

text \<open>
  The two groups of statuses the resolver treats specially, in the spec's words: the
  retryable ones and the non-retryable (permanently invalid) ones; and what the update
  block leaves in a runner's slot of \<open>Runners\<close>.
\<close>

definition spec_retryable :: "Status \<Rightarrow> bool" where
  "spec_retryable st = (st = FAILED_TO_COMMIT \<or> st = TX_NONCE_TOO_LARGE)"

definition spec_nonRetryable :: "Status \<Rightarrow> bool" where
  "spec_nonRetryable st = (st = ACCOUNT_NOT_EXIST \<or> st = TX_NONCE_TOO_SMALL)"

definition spec_runnerAfterUpdate :: "TxRunner \<Rightarrow> TxRunner option" where
  "spec_runnerAfterUpdate r =
     (if spec_retryable (Status r) \<or> spec_nonRetryable (Status r) then None else Some r)"

text \<open>
  The conflict resolver in the spec's words: a runner conflicts with \<open>touchedSet\<close>
  when the 64-bit prefix of one of its short keys, clean or dirty, is in the set; its
  dirty prefixes are the prefixes of its dirty keys; and \<open>spec_touchedSet T rs i\<close> is
  the set when slot \<open>i\<close> is examined, the slots before it having been examined in slot
  order from the set \<open>T\<close>, each committable one adding its dirty prefixes.
\<close>

definition spec_conflicts :: "TxRunner \<Rightarrow> u64 set \<Rightarrow> bool" where
  "spec_conflicts r touchedSet =
     (\<exists>e \<in> set (cachedEntries (Ctx r)). LittleEndian_Uint64 (fst e) \<in> touchedSet)"

definition spec_dirtyPrefixes :: "TxRunner \<Rightarrow> u64 set" where
  "spec_dirtyPrefixes r =
     set (map (\<lambda>e. LittleEndian_Uint64 (fst e)) (filter snd (cachedEntries (Ctx r))))"

fun spec_touchedSet :: "u64 set \<Rightarrow> TxRunner list \<Rightarrow> nat \<Rightarrow> u64 set" where
  "spec_touchedSet touchedSet rs 0 = touchedSet"
| "spec_touchedSet touchedSet rs (Suc i) =
     (if spec_conflicts (rs ! i) (spec_touchedSet touchedSet rs i)
      then spec_touchedSet touchedSet rs i
      else spec_touchedSet touchedSet rs i \<union> spec_dirtyPrefixes (rs ! i))"

text \<open>
  The live balance of an address in a context: the balance of its account there, zero
  when it has none (\<open>updateBalance\<close> starts from \<open>ZeroAccountInfo\<close> then).
\<close>

definition spec_liveBalance :: "Context \<Rightarrow> Address \<Rightarrow> u256" where
  "spec_liveBalance c addr =
     (case GetAccount c addr of None \<Rightarrow> 0 | Some acc \<Rightarrow> accBalance acc)"

text \<open>
  The reorderer in the spec's words: the senders in the order of their first appearance;
  the values the generator returns, in the order it returns them; and the swaps, each
  taking the next two values, reducing both modulo the length of the list and
  exchanging the two positions.
\<close>

fun spec_firstAppearance :: "'a list \<Rightarrow> 'a list" where
  "spec_firstAppearance [] = []"
| "spec_firstAppearance (x # xs) = x # removeAll x (spec_firstAppearance xs)"

fun spec_draws :: "'g mt19937 \<Rightarrow> 'g \<Rightarrow> nat \<Rightarrow> nat list" where
  "spec_draws rnd g 0 = []"
| "spec_draws rnd g (Suc k) = (case Int63 rnd g of (x, g') \<Rightarrow> x # spec_draws rnd g' k)"

fun spec_swaps :: "nat list \<Rightarrow> 'a list \<Rightarrow> 'a list" where
  "spec_swaps (x0 # x1 # xs) l =
     spec_swaps xs (l[x0 mod length l := l ! (x1 mod length l),
                      x1 mod length l := l ! (x0 mod length l)])"
| "spec_swaps xs l = l"

section \<open>Concrete inputs\<close>

text \<open>Small concrete values on which the theorems below are instantiated.\<close>

definition exampleTx :: "Address \<Rightarrow> u64 \<Rightarrow> TxToRun" where
  "exampleTx sender n =
     \<lparr>HashID = 16 * ucast sender + ucast n, From = sender, To = 0xC3, Nonce = n, Value = 100,
      GasPrice = 1, Gas = 21000, Data = [], Height = 0\<rparr>"

definition exampleEvm :: Evm where
  "exampleEvm =
     \<lparr>runTx = (\<lambda>idx blk c t. (newRunner c t SUCCESS)\<lparr>GasUsed := 21000\<rparr>),
      GetGasFee = (\<lambda>r. ucast (GasUsed r) * GasPrice (Tx r)),
      StatusToStr = (\<lambda>st. if st = SUCCESS then ''success'' else ''failure''),
      StatusIsFailure = (\<lambda>st. st \<noteq> SUCCESS \<and> st \<noteq> REVERTED)\<rparr>"

definition exampleTrunk :: TrunkStore where
  "exampleTrunk =
     \<lparr>worldAccounts = [0xA1 \<mapsto> \<lparr>accNonce = 0, accBalance = 1000000\<rparr>,
                       0xB2 \<mapsto> \<lparr>accNonce = 5, accBalance = 1000\<rparr>],
      standbyTxQueue = None,
      standbyTxs = Map.empty\<rparr>"

definition exampleRunner :: "Address \<Rightarrow> u64 \<Rightarrow> Status \<Rightarrow> (ShortKey \<times> bool) list \<Rightarrow> TxRunner" where
  "exampleRunner sender n st entries =
     (newRunner ((WithRbtCopy exampleTrunk)\<lparr>cachedEntries := entries\<rparr>) (exampleTx sender n) st)
       \<lparr>GasUsed := 21000\<rparr>"

definition exampleEngine :: txEngine where
  "exampleEngine =
     (snd (NewEbpTxExec 2 4 2 16 (\<lambda>gtx. (0xA1, True))))
       \<lparr>cleanCtx := Some exampleTrunk, cumulativeFeeRefund := Some 0, cumulativeGasFee := Some 0\<rparr>"

definition exampleRunners :: "TxRunner list" where
  "exampleRunners =
     [exampleRunner 0xA1 0 SUCCESS [],
      exampleRunner 0xB2 5 FAILED_TO_COMMIT [],
      exampleRunner 0xC3 0 ACCOUNT_NOT_EXIST [],
      exampleRunner 0xC3 1 TX_NONCE_TOO_LARGE []]"

definition exampleConflictRunners :: "TxRunner list" where
  "exampleConflictRunners =
     [exampleRunner 0xA1 0 SUCCESS [([1, 0, 0, 0, 0, 0, 0, 0], True), ([2, 0, 0, 0, 0, 0, 0, 0], False)],
      exampleRunner 0xB2 5 SUCCESS
        [([3, 0, 0, 0, 0, 0, 0, 0], False), ([1, 0, 0, 0, 0, 0, 0, 0], False),
         ([4, 0, 0, 0, 0, 0, 0, 0], True)],
      exampleRunner 0xC3 0 REVERTED [([2, 0, 0, 0, 0, 0, 0, 0], True)]]"

definition exampleInfo :: "Address \<Rightarrow> u64 \<Rightarrow> preparedInfo" where
  "exampleInfo sender n = \<lparr>tx = exampleTx sender n, txBytes = nilBytes, errorStr = []\<rparr>"

definition exampleEntry :: ctxAndAccounts where
  "exampleEntry =
     \<lparr>ctx = WithRbtCopy exampleTrunk, accounts = [0xA1, 0xB2], changed = False, totalGasFee = 0,
      addr2nonce' = [0xA1 \<mapsto> 0, 0xB2 \<mapsto> 5],
      addr2Balance' = [0xA1 \<mapsto> 1000000, 0xB2 \<mapsto> 1000]\<rparr>"

definition exampleRand :: "nat mt19937" where
  "exampleRand = \<lparr>Seed = (\<lambda>s. unat s), Int63 = (\<lambda>g. (g, Suc g))\<rparr>"

section \<open>The frontier of a nil pointer\<close>

text \<open>
  C9. For every address, each getter of a nil frontier (GetLatestNonce, GetLatestBalance,
  GetLatestTotalGas) answers not-present, with the zero nonce, the nil balance and the
  zero gas; each setter of a nil frontier (SetLatestNonce, SetLatestBalance,
  SetLatestTotalGas) returns without a fault and leaves the frontier nil.
\<close>

theorem nil_frontier_getters_and_setters:
  "GetLatestNonce None addr = (0, False) \<and>
   GetLatestBalance None addr = (None, False) \<and>
   GetLatestTotalGas None addr = (0, False) \<and>
   SetLatestNonce None addr newNonce = Inr None \<and>
   SetLatestBalance None addr balance = Inr None \<and>
   SetLatestTotalGas None addr gasLimit = Inr None"
  by (simp add: GetLatestNonce_def GetLatestBalance_def GetLatestTotalGas_def
      SetLatestNonce_def SetLatestBalance_def SetLatestTotalGas_def)

section \<open>GasUsedInfo before the first Execute\<close>

text \<open>
  C10. The claim is that GasUsedInfo, called on an engine made by NewEbpTxExec on which
  Execute never ran, returns three zeros without dereferencing a nil pointer. In the
  code the nil check covers \<open>cumulativeGasFee\<close> only: \<open>*exec.cumulativeFeeRefund\<close>
  is evaluated on both paths, and NewEbpTxExec leaves that pointer nil. The theorem
  evaluates the code on such an engine: the call panics.
\<close>

theorem GasUsedInfo_before_Execute:
  "GasUsedInfo (snd (NewEbpTxExec exeRoundCount runnerNum parallelN defaultTxListCap s)) =
     Inl NilPointerDereference"
  by (simp add: GasUsedInfo_def NewEbpTxExec_def)

section \<open>Parallel execution of a bundle\<close>

lemma runSlots_result:
  assumes "\<forall>i \<in> set is. i < length Runners" "distinct is"
  shows "\<exists>Runners' kvCount'.
           runSlots evm trunk currBlock txBundle is (Runners, kvCount, calls) =
             Inr (Runners', kvCount',
                  calls @ filter (\<lambda>i. \<not> (0 < i \<and> From (txBundle ! (i - 1)) = From (txBundle ! i))) is) \<and>
           length Runners' = length Runners \<and>
           (\<forall>i \<in> set is.
              Runners' ! i =
                Some (if 0 < i \<and> From (txBundle ! (i - 1)) = From (txBundle ! i)
                      then newRunner (WithRbtCopy trunk) (txBundle ! i) TX_NONCE_TOO_LARGE
                      else runTx evm i currBlock (WithRbtCopy trunk) (txBundle ! i))) \<and>
           (\<forall>i. i \<notin> set is \<longrightarrow> Runners' ! i = Runners ! i)"
  using assms
proof (induction "is" arbitrary: Runners kvCount calls)
  case Nil
  then show ?case by simp
next
  case (Cons i rest)
  define same where "same = (\<lambda>i. 0 < i \<and> From (txBundle ! (i - 1)) = From (txBundle ! i))"
  define slot where "slot = (\<lambda>i. if same i
                      then newRunner (WithRbtCopy trunk) (txBundle ! i) TX_NONCE_TOO_LARGE
                      else runTx evm i currBlock (WithRbtCopy trunk) (txBundle ! i))"
  define kv where "kv = (if same i then kvCount else kvCount + length (cachedEntries (Ctx (slot i))))"
  define cs where "cs = (if same i then calls else calls @ [i])"
  have step: "runSlots evm trunk currBlock txBundle (i # rest) (Runners, kvCount, calls) =
                runSlots evm trunk currBlock txBundle rest (Runners[i := Some (slot i)], kv, cs)"
    using Cons.prems(1)
    by (simp add: slot_def kv_def cs_def same_def Let_def)
  have pre: "\<forall>j \<in> set rest. j < length (Runners[i := Some (slot i)])" "distinct rest"
    using Cons.prems by simp_all
  from Cons.IH [OF pre, of kv cs]
  obtain Runners' kvCount' where
    res: "runSlots evm trunk currBlock txBundle rest (Runners[i := Some (slot i)], kv, cs) =
            Inr (Runners', kvCount', cs @ filter (\<lambda>i. \<not> same i) rest)"
    and len: "length Runners' = length (Runners[i := Some (slot i)])"
    and ins: "\<forall>j \<in> set rest. Runners' ! j = Some (slot j)"
    and outs: "\<forall>j. j \<notin> set rest \<longrightarrow> Runners' ! j = (Runners[i := Some (slot i)]) ! j"
    unfolding same_def slot_def by blast
  have "i \<notin> set rest" "i < length Runners"
    using Cons.prems by simp_all
  then have at_i: "Runners' ! i = Some (slot i)"
    using outs by simp
  have calls_eq: "cs @ filter (\<lambda>i. \<not> same i) rest = calls @ filter (\<lambda>i. \<not> same i) (i # rest)"
    by (simp add: cs_def)
  have "\<exists>Runners' kvCount'.
           runSlots evm trunk currBlock txBundle (i # rest) (Runners, kvCount, calls) =
             Inr (Runners', kvCount', calls @ filter (\<lambda>i. \<not> same i) (i # rest)) \<and>
           length Runners' = length Runners \<and>
           (\<forall>j \<in> set (i # rest). Runners' ! j = Some (slot j)) \<and>
           (\<forall>j. j \<notin> set (i # rest) \<longrightarrow> Runners' ! j = Runners ! j)"
    using res len ins outs at_i
    by (simp only: step calls_eq) auto
  then show ?case
    unfolding same_def slot_def .
qed

text \<open>
  C8. In runTxInParallel, with \<open>Runners\<close> long enough for the bundle: a slot with index
  above 0 whose transaction has the same \<open>From\<close> as the transaction of the slot before
  it gets a fresh runner with status \<open>TX_NONCE_TOO_LARGE\<close>, and \<open>runTx\<close> is not called
  for it; for every other slot \<open>runTx\<close> is called (once, \<open>calls\<close> lists the calls) and
  its runner is what \<open>runTx\<close> leaves.
\<close>

theorem runTxInParallel_repeated_sender:
  assumes "length txBundle \<le> length Runners"
  shows "\<exists>Runners' kvCount calls.
           runTxInParallel evm trunk currBlock txBundle Runners = Inr (Runners', kvCount, calls) \<and>
           calls = filter (\<lambda>i. \<not> (0 < i \<and> From (txBundle ! (i - 1)) = From (txBundle ! i)))
                     [0 ..< length txBundle] \<and>
           (\<forall>i < length txBundle.
              if 0 < i \<and> From (txBundle ! (i - 1)) = From (txBundle ! i)
              then Runners' ! i = Some (newRunner (WithRbtCopy trunk) (txBundle ! i) TX_NONCE_TOO_LARGE) \<and>
                   i \<notin> set calls
              else Runners' ! i = Some (runTx evm i currBlock (WithRbtCopy trunk) (txBundle ! i)) \<and>
                   i \<in> set calls)"
proof -
  have "\<forall>i \<in> set [0 ..< length txBundle]. i < length Runners" "distinct [0 ..< length txBundle]"
    using assms by auto
  from runSlots_result [OF this, of evm trunk currBlock txBundle 0 "[]"]
  show ?thesis
    unfolding runTxInParallel_def by (fastforce split: if_splits)
qed

theorem runTxInParallel_repeated_sender_witness:
  "runTxInParallel exampleEvm exampleTrunk None
     [exampleTx 0xA1 0, exampleTx 0xA1 1, exampleTx 0xB2 5] [None, None, None, None] =
   Inr ([Some ((newRunner (WithRbtCopy exampleTrunk) (exampleTx 0xA1 0) SUCCESS)\<lparr>GasUsed := 21000\<rparr>),
         Some (newRunner (WithRbtCopy exampleTrunk) (exampleTx 0xA1 1) TX_NONCE_TOO_LARGE),
         Some ((newRunner (WithRbtCopy exampleTrunk) (exampleTx 0xB2 5) SUCCESS)\<lparr>GasUsed := 21000\<rparr>),
         None],
        0, [0, 2])"
  using runTxInParallel_repeated_sender
          [of "[exampleTx 0xA1 0, exampleTx 0xA1 1, exampleTx 0xB2 5]" "[None, None, None, None]"
              exampleEvm exampleTrunk None]
  by (simp add: runTxInParallel_def exampleEvm_def exampleTx_def upt_rec newRunner_def WithRbtCopy_def)


section \<open>The update block after a round\<close>

lemma updateSlot_step:
  assumes "idx < length Runners" "Runners ! idx = Some r" "cumulativeGasFee exec = Some fee"
  shows "updateSlot evm idx t (Runners, txRange, slots, exec) =
           Inr (Runners[idx := spec_runnerAfterUpdate r],
                txRange\<lparr>start := start txRange + 1,
                        end' := end' txRange + (if spec_retryable (Status r) then 1 else 0)\<rparr>,
                (if spec_retryable (Status r)
                 then (slots(start txRange := None))(end' txRange \<mapsto> ToBytes t)
                 else slots(start txRange := None)),
                exec\<lparr>cumulativeGasUsed :=
                        cumulativeGasUsed exec + (if spec_nonRetryable (Status r) then Gas (Tx r) else 0),
                     cumulativeGasFee :=
                        Some (fee + (if spec_nonRetryable (Status r) then GetGasFee evm r else 0))\<rparr>)"
proof -
  have same: "Runners[idx := Some r] = Runners"
    using assms(1,2) by (metis list_update_id)
  show ?thesis
    using assms same
    by (auto simp: spec_retryable_def spec_nonRetryable_def spec_runnerAfterUpdate_def Let_def)
qed

lemma updateStandbyQ_loop:
  assumes "length rs = length ts" "k + length ts \<le> length Runners"
    and "\<forall>j < length ts. Runners ! (k + j) = Some (rs ! j)"
    and "cumulativeGasFee exec = Some fee"
  shows "\<exists>slots'.
           updateStandbyQ evm (zip [k ..< k + length ts] ts) (Runners, txRange, slots, exec) =
             Inr (take k Runners @ map spec_runnerAfterUpdate rs @ drop (k + length ts) Runners,
                  txRange\<lparr>start := start txRange + of_nat (length ts),
                          end' := end' txRange +
                                    of_nat (length (filter (\<lambda>r. spec_retryable (Status r)) rs))\<rparr>,
                  slots',
                  exec\<lparr>cumulativeGasUsed :=
                          cumulativeGasUsed exec +
                            sum_list (map (\<lambda>r. Gas (Tx r)) (filter (\<lambda>r. spec_nonRetryable (Status r)) rs)),
                       cumulativeGasFee :=
                          Some (fee +
                            sum_list (map (GetGasFee evm) (filter (\<lambda>r. spec_nonRetryable (Status r)) rs)))\<rparr>)"
  using assms
proof (induction ts arbitrary: k rs Runners txRange slots exec fee)
  case Nil
  then show ?case by simp
next
  case (Cons t ts)
  then obtain r rs' where rs: "rs = r # rs'" "length rs' = length ts"
    by (cases rs) auto
  have klt: "k < length Runners"
    using Cons.prems(2) by simp
  have at_k: "Runners ! k = Some r"
    using Cons.prems(3) rs by force
  define R1 where "R1 = Runners[k := spec_runnerAfterUpdate r]"
  define rg1 where "rg1 = txRange\<lparr>start := start txRange + 1,
                        end' := end' txRange + (if spec_retryable (Status r) then 1 else 0)\<rparr>"
  define slots1 where "slots1 = (if spec_retryable (Status r)
                 then (slots(start txRange := None))(end' txRange \<mapsto> ToBytes t)
                 else slots(start txRange := None))"
  define fee1 where "fee1 = fee + (if spec_nonRetryable (Status r) then GetGasFee evm r else 0)"
  define exec1 where "exec1 = exec\<lparr>cumulativeGasUsed :=
                        cumulativeGasUsed exec + (if spec_nonRetryable (Status r) then Gas (Tx r) else 0),
                     cumulativeGasFee := Some fee1\<rparr>"
  have step: "updateSlot evm k t (Runners, txRange, slots, exec) = Inr (R1, rg1, slots1, exec1)"
    unfolding R1_def rg1_def slots1_def exec1_def fee1_def
    by (rule updateSlot_step [OF klt at_k Cons.prems(4)])
  have unfold: "updateStandbyQ evm (zip [k ..< k + length (t # ts)] (t # ts)) (Runners, txRange, slots, exec) =
                updateStandbyQ evm (zip [Suc k ..< Suc k + length ts] ts) (R1, rg1, slots1, exec1)"
  proof -
    have "[k ..< k + length (t # ts)] = k # [Suc k ..< Suc k + length ts]"
      by (subst upt_rec) simp
    then show ?thesis
      by (simp only: zip_Cons_Cons updateStandbyQ.simps step sum.case)
  qed
  have p2: "Suc k + length ts \<le> length R1"
    using Cons.prems(2) by (simp add: R1_def)
  have p3: "\<forall>j < length ts. R1 ! (Suc k + j) = Some (rs' ! j)"
    using Cons.prems(3) rs by (auto simp: R1_def)
  have p4: "cumulativeGasFee exec1 = Some fee1"
    by (simp add: exec1_def)
  from Cons.IH [OF rs(2) p2 p3 p4, of rg1 slots1]
  obtain slots' where
    ih: "updateStandbyQ evm (zip [Suc k ..< Suc k + length ts] ts) (R1, rg1, slots1, exec1) =
           Inr (take (Suc k) R1 @ map spec_runnerAfterUpdate rs' @ drop (Suc k + length ts) R1,
                rg1\<lparr>start := start rg1 + of_nat (length ts),
                    end' := end' rg1 + of_nat (length (filter (\<lambda>r. spec_retryable (Status r)) rs'))\<rparr>,
                slots',
                exec1\<lparr>cumulativeGasUsed :=
                        cumulativeGasUsed exec1 +
                          sum_list (map (\<lambda>r. Gas (Tx r)) (filter (\<lambda>r. spec_nonRetryable (Status r)) rs')),
                      cumulativeGasFee :=
                        Some (fee1 +
                          sum_list (map (GetGasFee evm) (filter (\<lambda>r. spec_nonRetryable (Status r)) rs')))\<rparr>)"
    by blast
  have e1: "take (Suc k) R1 @ map spec_runnerAfterUpdate rs' @ drop (Suc k + length ts) R1 =
            take k Runners @ map spec_runnerAfterUpdate rs @ drop (k + length (t # ts)) Runners"
    using klt by (simp add: R1_def rs take_Suc_conv_app_nth)
  have e2: "rg1\<lparr>start := start rg1 + of_nat (length ts),
                end' := end' rg1 + of_nat (length (filter (\<lambda>r. spec_retryable (Status r)) rs'))\<rparr> =
            txRange\<lparr>start := start txRange + of_nat (length (t # ts)),
                    end' := end' txRange + of_nat (length (filter (\<lambda>r. spec_retryable (Status r)) rs))\<rparr>"
    by (simp add: rg1_def rs)
  have e3: "exec1\<lparr>cumulativeGasUsed :=
                        cumulativeGasUsed exec1 +
                          sum_list (map (\<lambda>r. Gas (Tx r)) (filter (\<lambda>r. spec_nonRetryable (Status r)) rs')),
                      cumulativeGasFee :=
                        Some (fee1 +
                          sum_list (map (GetGasFee evm) (filter (\<lambda>r. spec_nonRetryable (Status r)) rs')))\<rparr> =
            exec\<lparr>cumulativeGasUsed :=
                          cumulativeGasUsed exec +
                            sum_list (map (\<lambda>r. Gas (Tx r)) (filter (\<lambda>r. spec_nonRetryable (Status r)) rs)),
                       cumulativeGasFee :=
                          Some (fee +
                            sum_list (map (GetGasFee evm) (filter (\<lambda>r. spec_nonRetryable (Status r)) rs)))\<rparr>"
    by (simp add: exec1_def fee1_def rs add.assoc)
  show ?case
    unfolding unfold ih e1 e2 e3 by blast
qed


lemma unat_plus_one:
  fixes x :: u64
  assumes "unat x + 1 < 2 ^ 64"
  shows "unat (x + 1) = unat x + 1"
  using assms unat_add_lem [of x 1] by simp

lemma length_filter_zip_snd:
  "length rs = length ts \<Longrightarrow>
   length (filter (\<lambda>(t, r). P r) (zip ts rs)) = length (filter P rs)"
  by (induction rs ts rule: list_induct2) auto

lemma updateStandbyQ_slots:
  assumes "updateStandbyQ evm (zip [k ..< k + length ts] ts) (Runners, txRange, slots, exec) =
             Inr (Runners', txRange', slots', exec')"
    and "length rs = length ts" "k + length ts \<le> length Runners"
    and "\<forall>j < length ts. Runners ! (k + j) = Some (rs ! j)"
    and "cumulativeGasFee exec = Some fee"
    and "unat (start txRange) + length ts \<le> unat (end' txRange)"
    and "unat (end' txRange) + length ts < 2 ^ 64"
  shows "(\<forall>j < length ts. slots' (start txRange + of_nat j) = None) \<and>
         map (\<lambda>j. slots' (end' txRange + of_nat j))
             [0 ..< length (filter (\<lambda>(t, r). spec_retryable (Status r)) (zip ts rs))] =
           map (\<lambda>(t, r). Some (ToBytes t)) (filter (\<lambda>(t, r). spec_retryable (Status r)) (zip ts rs)) \<and>
         (\<forall>key. (unat key < unat (start txRange) \<or> unat (start txRange) + length ts \<le> unat key) \<and>
                (unat key < unat (end' txRange) \<or>
                 unat (end' txRange) +
                   length (filter (\<lambda>(t, r). spec_retryable (Status r)) (zip ts rs)) \<le> unat key)
                \<longrightarrow> slots' key = slots key)"
  using assms
proof (induction ts arbitrary: k rs Runners txRange slots exec fee)
  case Nil
  then show ?case by simp
next
  case (Cons t ts)
  then obtain r rs' where rs: "rs = r # rs'" "length rs' = length ts"
    by (cases rs) auto
  define s where "s = start txRange"
  define e where "e = end' txRange"
  define n where "n = length ts"
  define retry where "retry = spec_retryable (Status r)"
  define m' where "m' = length (filter (\<lambda>(t, r). spec_retryable (Status r)) (zip ts rs'))"
  have klt: "k < length Runners"
    using Cons.prems(3) by simp
  have at_k: "Runners ! k = Some r"
    using Cons.prems(4) rs by force
  define R1 where "R1 = Runners[k := spec_runnerAfterUpdate r]"
  define rg1 where "rg1 = txRange\<lparr>start := s + 1, end' := e + (if retry then 1 else 0)\<rparr>"
  define slots1 where "slots1 = (if retry then (slots(s := None))(e \<mapsto> ToBytes t)
                                 else slots(s := None))"
  define fee1 where "fee1 = fee + (if spec_nonRetryable (Status r) then GetGasFee evm r else 0)"
  define exec1 where "exec1 = exec\<lparr>cumulativeGasUsed :=
                        cumulativeGasUsed exec + (if spec_nonRetryable (Status r) then Gas (Tx r) else 0),
                     cumulativeGasFee := Some fee1\<rparr>"
  have step: "updateSlot evm k t (Runners, txRange, slots, exec) = Inr (R1, rg1, slots1, exec1)"
    unfolding R1_def rg1_def slots1_def exec1_def fee1_def s_def e_def retry_def
    by (rule updateSlot_step [OF klt at_k Cons.prems(5)])
  have upt: "[k ..< k + length (t # ts)] = k # [Suc k ..< Suc k + length ts]"
    by (subst upt_rec) simp
  have rest: "updateStandbyQ evm (zip [Suc k ..< Suc k + length ts] ts) (R1, rg1, slots1, exec1) =
                Inr (Runners', txRange', slots', exec')"
    using Cons.prems(1)
    by (simp only: upt zip_Cons_Cons updateStandbyQ.simps step sum.case)
  have num: "unat s + Suc n \<le> unat e" "unat e + Suc n < 2 ^ 64"
    using Cons.prems(6,7) by (simp_all add: s_def e_def n_def)
  have us: "unat (s + 1) = unat s + 1"
    using num by (intro unat_plus_one) simp
  have ue: "unat (e + 1) = unat e + 1"
    using num by (intro unat_plus_one) simp
  have s1: "start rg1 = s + 1" and e1: "end' rg1 = e + (if retry then 1 else 0)"
    by (simp_all add: rg1_def)
  have ue1: "unat (end' rg1) = unat e + (if retry then 1 else 0)"
    using ue by (simp add: e1)
  have p3: "Suc k + length ts \<le> length R1"
    using Cons.prems(3) by (simp add: R1_def)
  have p4: "\<forall>j < length ts. R1 ! (Suc k + j) = Some (rs' ! j)"
    using Cons.prems(4) rs by (auto simp: R1_def)
  have p5: "cumulativeGasFee exec1 = Some fee1"
    by (simp add: exec1_def)
  have p6: "unat (start rg1) + length ts \<le> unat (end' rg1)"
    using num us ue1 by (simp add: s1 n_def)
  have p7: "unat (end' rg1) + length ts < 2 ^ 64"
    using num ue1 by (simp add: n_def)
  note ih = Cons.IH [OF rest rs(2) p3 p4 p5 p6 p7]
  have ih1: "\<And>j. j < n \<Longrightarrow> slots' (s + 1 + of_nat j) = None"
    using ih by (simp add: s1 n_def)
  have ih2: "map (\<lambda>j. slots' (end' rg1 + of_nat j)) [0 ..< m'] =
             map (\<lambda>(t, r). Some (ToBytes t)) (filter (\<lambda>(t, r). spec_retryable (Status r)) (zip ts rs'))"
    using ih by (simp add: m'_def)
  have ih3: "\<And>key. (unat key < unat s + 1 \<or> unat s + 1 + n \<le> unat key) \<Longrightarrow>
                    (unat key < unat (end' rg1) \<or> unat (end' rg1) + m' \<le> unat key) \<Longrightarrow>
                    slots' key = slots1 key"
    using ih us by (simp add: s1 n_def m'_def)
  have s_ne_e: "s \<noteq> e"
    using num by auto
  have c1: "\<forall>j < length (t # ts). slots' (start txRange + of_nat j) = None"
  proof (intro allI impI)
    fix j assume j: "j < length (t # ts)"
    show "slots' (start txRange + of_nat j) = None"
    proof (cases j)
      case 0
      have "slots' s = slots1 s"
        using num ue1 by (intro ih3) auto
      also have "\<dots> = None"
        using s_ne_e by (simp add: slots1_def)
      finally show ?thesis
        using 0 by (simp add: s_def)
    next
      case (Suc j')
      then have "j' < n" using j by (simp add: n_def)
      from ih1 [OF this] show ?thesis
        using Suc by (simp add: s_def add.assoc)
    qed
  qed
  have c2: "map (\<lambda>j. slots' (end' txRange + of_nat j))
             [0 ..< length (filter (\<lambda>(t, r). spec_retryable (Status r)) (zip (t # ts) rs))] =
           map (\<lambda>(t, r). Some (ToBytes t))
             (filter (\<lambda>(t, r). spec_retryable (Status r)) (zip (t # ts) rs))"
  proof (cases retry)
    case True
    have "slots' e = slots1 e"
      using num ue1 True by (intro ih3) auto
    then have at_e: "slots' e = Some (ToBytes t)"
      using True by (simp add: slots1_def)
    have shift: "map (\<lambda>j. slots' (e + of_nat (Suc j))) [0 ..< m'] =
                 map (\<lambda>j. slots' (end' rg1 + of_nat j)) [0 ..< m']"
      using True by (simp add: e1 add.assoc)
    show ?thesis
      using True at_e ih2 shift
      by (simp add: rs retry_def [symmetric] m'_def [symmetric] e_def [symmetric] map_upt_Suc
          del: upt_Suc of_nat_Suc)
  next
    case False
    then show ?thesis
      using ih2
      by (simp add: rs retry_def [symmetric] m'_def [symmetric] e_def [symmetric] e1)
  qed
  have c3: "\<forall>key. (unat key < unat (start txRange) \<or> unat (start txRange) + length (t # ts) \<le> unat key) \<and>
                (unat key < unat (end' txRange) \<or>
                 unat (end' txRange) +
                   length (filter (\<lambda>(t, r). spec_retryable (Status r)) (zip (t # ts) rs)) \<le> unat key)
                \<longrightarrow> slots' key = slots key"
  proof (intro allI impI, elim conjE)
    fix key :: u64
    assume a: "unat key < unat (start txRange) \<or> unat (start txRange) + length (t # ts) \<le> unat key"
      and b: "unat key < unat (end' txRange) \<or>
                 unat (end' txRange) +
                   length (filter (\<lambda>(t, r). spec_retryable (Status r)) (zip (t # ts) rs)) \<le> unat key"
    from a have a': "unat key < unat s \<or> unat s + Suc n \<le> unat key"
      by (simp add: s_def n_def)
    from b have b': "unat key < unat e \<or> unat e + (if retry then Suc m' else m') \<le> unat key"
      by (simp add: rs retry_def m'_def e_def split: if_splits)
    have "slots' key = slots1 key"
      using a' b' ue1 by (intro ih3) (auto split: if_splits)
    moreover have "key \<noteq> s" using a' by auto
    moreover have "retry \<Longrightarrow> key \<noteq> e" using b' by auto
    ultimately show "slots' key = slots key"
      by (simp add: slots1_def)
  qed
  show ?case
    using c1 c2 c3 by blast
qed


lemma takeRunners_None:
  "i < length Runners \<Longrightarrow> Runners ! i = None \<Longrightarrow>
   takeRunners (i # rest) (Runners, committable) = takeRunners rest (Runners, committable)"
  by simp

lemma takeRunners_Some:
  "i < length Runners \<Longrightarrow> Runners ! i = Some r \<Longrightarrow>
   takeRunners (i # rest) (Runners, committable) =
     takeRunners rest (Runners[i := None], committable @ [r])"
  by simp

lemma takeRunners_loop:
  "length pre = k \<Longrightarrow>
   takeRunners [k ..< k + length xs] (pre @ xs @ post, committable) =
     Inr (pre @ replicate (length xs) None @ post, committable @ List.map_filter (\<lambda>x. x) xs)"
proof (induction xs arbitrary: pre k committable)
  case Nil
  then show ?case by simp
next
  case (Cons x xs)
  have upt: "[k ..< k + length (x # xs)] = k # [Suc k ..< Suc k + length xs]"
    by (subst upt_rec) simp
  have at_k: "(pre @ (x # xs) @ post) ! k = x" "k < length (pre @ (x # xs) @ post)"
    using Cons.prems by (simp_all add: nth_append)
  have upd: "(pre @ (x # xs) @ post)[k := None] = (pre @ [None]) @ xs @ post"
    using Cons.prems by (simp add: list_update_append)
  have same: "pre @ (x # xs) @ post = (pre @ [x]) @ xs @ post"
    by simp
  have len: "length (pre @ [None]) = Suc k" "length (pre @ [x]) = Suc k"
    using Cons.prems by simp_all
  show ?case
  proof (cases x)
    case None
    have "takeRunners [k ..< k + length (x # xs)] (pre @ (x # xs) @ post, committable) =
          takeRunners [Suc k ..< Suc k + length xs] (pre @ (x # xs) @ post, committable)"
      unfolding upt using at_k None by (intro takeRunners_None) simp_all
    also have "\<dots> = takeRunners [Suc k ..< Suc k + length xs] ((pre @ [x]) @ xs @ post, committable)"
      by (simp only: same)
    also have "\<dots> = Inr ((pre @ [x]) @ replicate (length xs) None @ post,
                         committable @ List.map_filter (\<lambda>x. x) xs)"
      by (rule Cons.IH [OF len(2)])
    finally show ?thesis
      using None by simp
  next
    case (Some r)
    have "takeRunners [k ..< k + length (x # xs)] (pre @ (x # xs) @ post, committable) =
          takeRunners [Suc k ..< Suc k + length xs]
            ((pre @ (x # xs) @ post)[k := None], committable @ [r])"
      unfolding upt using at_k Some by (intro takeRunners_Some) simp_all
    also have "\<dots> = takeRunners [Suc k ..< Suc k + length xs]
                       ((pre @ [None]) @ xs @ post, committable @ [r])"
      by (simp only: upd)
    also have "\<dots> = Inr ((pre @ [None]) @ replicate (length xs) None @ post,
                         (committable @ [r]) @ List.map_filter (\<lambda>x. x) xs)"
      by (rule Cons.IH [OF len(1)])
    finally show ?thesis
      using Some by simp
  qed
qed

lemma map_filter_runnerAfterUpdate:
  "List.map_filter (\<lambda>x. x) (map spec_runnerAfterUpdate rs) =
     filter (\<lambda>r. \<not> spec_retryable (Status r) \<and> \<not> spec_nonRetryable (Status r)) rs"
  by (induction rs) (auto simp: spec_runnerAfterUpdate_def)

text \<open>
  C6. The update block of checkTxDepsAndUptStandbyQ and the loop of Execute that follows
  it, when the first slots of \<open>Runners\<close> hold the runners \<open>rs\<close> of the bundle. One
  slot is deleted at \<open>start\<close> per transaction of the bundle and \<open>start\<close> advances by
  their number. A runner with status \<open>FAILED_TO_COMMIT\<close> or \<open>TX_NONCE_TOO_LARGE\<close> has
  its transaction's bytes written at \<open>end\<close>, which advances by one, and leaves
  \<open>Runners\<close>; one with status \<open>ACCOUNT_NOT_EXIST\<close> or \<open>TX_NONCE_TOO_SMALL\<close> leaves
  \<open>Runners\<close> too, its \<open>Tx.Gas\<close> is added to \<open>cumulativeGasUsed\<close> and its
  \<open>GetGasFee()\<close> to \<open>cumulativeGasFee\<close>; every other runner stays and is appended to
  the committable list by Execute. When the bundle lies inside the queue and \<open>end\<close>
  does not wrap, the deleted slots are empty afterwards, the slots from the old \<open>end\<close>
  on hold the retried transactions in slot order, and no other slot changes.
\<close>

theorem updateStandbyQ_by_status:
  assumes "length rs = length txBundle" and "cumulativeGasFee exec = Some fee"
  shows "\<exists>slots'.
           updateStandbyQ evm (zip [0 ..< length txBundle] txBundle)
               (map Some rs @ others, txRange, slots, exec) =
             Inr (map spec_runnerAfterUpdate rs @ others,
                  txRange\<lparr>start := start txRange + of_nat (length txBundle),
                          end' := end' txRange +
                                    of_nat (length (filter (\<lambda>r. spec_retryable (Status r)) rs))\<rparr>,
                  slots',
                  exec\<lparr>cumulativeGasUsed :=
                          cumulativeGasUsed exec +
                            sum_list (map (\<lambda>r. Gas (Tx r)) (filter (\<lambda>r. spec_nonRetryable (Status r)) rs)),
                       cumulativeGasFee :=
                          Some (fee +
                            sum_list (map (GetGasFee evm) (filter (\<lambda>r. spec_nonRetryable (Status r)) rs)))\<rparr>) \<and>
           takeRunners [0 ..< length txBundle] (map spec_runnerAfterUpdate rs @ others, committable) =
             Inr (replicate (length txBundle) None @ others,
                  committable @
                    filter (\<lambda>r. \<not> spec_retryable (Status r) \<and> \<not> spec_nonRetryable (Status r)) rs) \<and>
           (unat (start txRange) + length txBundle \<le> unat (end' txRange) \<and>
            unat (end' txRange) + length txBundle < 2 ^ 64 \<longrightarrow>
              (\<forall>j < length txBundle. slots' (start txRange + of_nat j) = None) \<and>
              map (\<lambda>j. slots' (end' txRange + of_nat j))
                  [0 ..< length (filter (\<lambda>r. spec_retryable (Status r)) rs)] =
                map (\<lambda>(t, r). Some (ToBytes t))
                  (filter (\<lambda>(t, r). spec_retryable (Status r)) (zip txBundle rs)) \<and>
              (\<forall>key. (unat key < unat (start txRange) \<or>
                       unat (start txRange) + length txBundle \<le> unat key) \<and>
                      (unat key < unat (end' txRange) \<or>
                       unat (end' txRange) +
                         length (filter (\<lambda>r. spec_retryable (Status r)) rs) \<le> unat key)
                      \<longrightarrow> slots' key = slots key))"
proof -
  define Runners where "Runners = map Some rs @ others"
  have p2: "0 + length txBundle \<le> length Runners"
    using assms(1) by (simp add: Runners_def)
  have p3: "\<forall>j < length txBundle. Runners ! (0 + j) = Some (rs ! j)"
    using assms(1) by (simp add: Runners_def nth_append)
  have shape: "take 0 Runners @ map spec_runnerAfterUpdate rs @ drop (0 + length txBundle) Runners =
               map spec_runnerAfterUpdate rs @ others"
    using assms(1) by (simp add: Runners_def)
  from updateStandbyQ_loop [OF assms(1) p2 p3 assms(2), of evm txRange slots]
  obtain slots' where
    run: "updateStandbyQ evm (zip [0 ..< 0 + length txBundle] txBundle) (Runners, txRange, slots, exec) =
            Inr (map spec_runnerAfterUpdate rs @ others,
                 txRange\<lparr>start := start txRange + of_nat (length txBundle),
                         end' := end' txRange +
                                   of_nat (length (filter (\<lambda>r. spec_retryable (Status r)) rs))\<rparr>,
                 slots',
                 exec\<lparr>cumulativeGasUsed :=
                         cumulativeGasUsed exec +
                           sum_list (map (\<lambda>r. Gas (Tx r)) (filter (\<lambda>r. spec_nonRetryable (Status r)) rs)),
                      cumulativeGasFee :=
                         Some (fee +
                           sum_list (map (GetGasFee evm) (filter (\<lambda>r. spec_nonRetryable (Status r)) rs)))\<rparr>)"
    unfolding shape by blast
  have cnt: "length (filter (\<lambda>(t, r). spec_retryable (Status r)) (zip txBundle rs)) =
             length (filter (\<lambda>r. spec_retryable (Status r)) rs)"
    by (rule length_filter_zip_snd [OF assms(1)])
  have slots_facts:
    "unat (start txRange) + length txBundle \<le> unat (end' txRange) \<Longrightarrow>
     unat (end' txRange) + length txBundle < 2 ^ 64 \<Longrightarrow>
     (\<forall>j < length txBundle. slots' (start txRange + of_nat j) = None) \<and>
     map (\<lambda>j. slots' (end' txRange + of_nat j))
         [0 ..< length (filter (\<lambda>r. spec_retryable (Status r)) rs)] =
       map (\<lambda>(t, r). Some (ToBytes t))
         (filter (\<lambda>(t, r). spec_retryable (Status r)) (zip txBundle rs)) \<and>
     (\<forall>key. (unat key < unat (start txRange) \<or>
              unat (start txRange) + length txBundle \<le> unat key) \<and>
             (unat key < unat (end' txRange) \<or>
              unat (end' txRange) +
                length (filter (\<lambda>r. spec_retryable (Status r)) rs) \<le> unat key)
             \<longrightarrow> slots' key = slots key)"
    using updateStandbyQ_slots [OF run assms(1) p2 p3 assms(2)]
    unfolding cnt by blast
  have take: "takeRunners [0 ..< length txBundle] (map spec_runnerAfterUpdate rs @ others, committable) =
             Inr (replicate (length txBundle) None @ others,
                  committable @
                    filter (\<lambda>r. \<not> spec_retryable (Status r) \<and> \<not> spec_nonRetryable (Status r)) rs)"
    using takeRunners_loop [of "[]" 0 "map spec_runnerAfterUpdate rs" others committable] assms(1)
    by (simp add: map_filter_runnerAfterUpdate)
  show ?thesis
    using run take slots_facts
    unfolding Runners_def by (intro exI [of _ slots']) simp
qed


theorem updateStandbyQ_by_status_witness:
  "\<exists>slots'.
     updateStandbyQ exampleEvm (zip [0 ..< 4] (map Tx exampleRunners))
         (map Some exampleRunners, \<lparr>start = 0, end' = 4\<rparr>, Map.empty, exampleEngine) =
       Inr ([Some (exampleRunner 0xA1 0 SUCCESS []), None, None, None],
            \<lparr>start = 4, end' = 6\<rparr>,
            slots',
            exampleEngine\<lparr>cumulativeGasUsed := 21000, cumulativeGasFee := Some 21000\<rparr>) \<and>
     takeRunners [0 ..< 4] ([Some (exampleRunner 0xA1 0 SUCCESS []), None, None, None], []) =
       Inr ([None, None, None, None], [exampleRunner 0xA1 0 SUCCESS []]) \<and>
     slots' 0 = None \<and> slots' 3 = None \<and>
     [slots' 4, slots' 5] = [Some (ToBytes (exampleTx 0xB2 5)), Some (ToBytes (exampleTx 0xC3 1))]"
proof -
  have len: "length exampleRunners = length (map Tx exampleRunners)"
    by simp
  have fee: "cumulativeGasFee exampleEngine = Some 0"
    by (simp add: exampleEngine_def)
  from updateStandbyQ_by_status [OF len fee, of exampleEvm "[]" "\<lparr>start = 0, end' = 4\<rparr>" Map.empty "[]"]
  obtain slots' where
    run: "updateStandbyQ exampleEvm (zip [0 ..< length (map Tx exampleRunners)] (map Tx exampleRunners))
            (map Some exampleRunners @ [], \<lparr>start = 0, end' = 4\<rparr>, Map.empty, exampleEngine) =
          Inr (map spec_runnerAfterUpdate exampleRunners @ [],
               \<lparr>start = 0, end' = 4\<rparr>\<lparr>start := start \<lparr>start = 0, end' = 4\<rparr> + of_nat (length (map Tx exampleRunners)),
                   end' := end' \<lparr>start = 0, end' = 4\<rparr> +
                     of_nat (length (filter (\<lambda>r. spec_retryable (Status r)) exampleRunners))\<rparr>,
               slots',
               exampleEngine\<lparr>cumulativeGasUsed :=
                  cumulativeGasUsed exampleEngine +
                    sum_list (map (\<lambda>r. Gas (Tx r)) (filter (\<lambda>r. spec_nonRetryable (Status r)) exampleRunners)),
                  cumulativeGasFee :=
                    Some (0 + sum_list (map (GetGasFee exampleEvm)
                                 (filter (\<lambda>r. spec_nonRetryable (Status r)) exampleRunners)))\<rparr>)"
    and take: "takeRunners [0 ..< length (map Tx exampleRunners)]
                 (map spec_runnerAfterUpdate exampleRunners @ [], []) =
               Inr (replicate (length (map Tx exampleRunners)) None @ [],
                    [] @ filter (\<lambda>r. \<not> spec_retryable (Status r) \<and> \<not> spec_nonRetryable (Status r))
                           exampleRunners)"
    and slots: "unat (start \<lparr>start = 0, end' = 4\<rparr>) + length (map Tx exampleRunners)
                  \<le> unat (end' \<lparr>start = 0, end' = 4\<rparr>) \<and>
                unat (end' \<lparr>start = 0, end' = 4\<rparr>) + length (map Tx exampleRunners) < 2 ^ 64 \<longrightarrow>
                  (\<forall>j < length (map Tx exampleRunners). slots' (start \<lparr>start = 0, end' = 4\<rparr> + of_nat j) = None) \<and>
                  map (\<lambda>j. slots' (end' \<lparr>start = 0, end' = 4\<rparr> + of_nat j))
                      [0 ..< length (filter (\<lambda>r. spec_retryable (Status r)) exampleRunners)] =
                    map (\<lambda>(t, r). Some (ToBytes t))
                      (filter (\<lambda>(t, r). spec_retryable (Status r)) (zip (map Tx exampleRunners) exampleRunners))"
    by blast
  have ev: "map spec_runnerAfterUpdate exampleRunners =
              [Some (exampleRunner 0xA1 0 SUCCESS []), None, None, None]"
    by (simp add: exampleRunners_def spec_runnerAfterUpdate_def spec_retryable_def
        spec_nonRetryable_def exampleRunner_def newRunner_def)
  have n4: "length (map Tx exampleRunners) = 4"
    by (simp add: exampleRunners_def)
  have s0: "slots' 0 = None" and s3: "slots' 3 = None"
    using slots n4 by (auto dest: spec [of _ 0] spec [of _ 3])
  have s45: "[slots' 4, slots' 5] = [Some (ToBytes (exampleTx 0xB2 5)), Some (ToBytes (exampleTx 0xC3 1))]"
    using slots n4
    by (simp add: exampleRunners_def spec_retryable_def exampleRunner_def newRunner_def upt_rec)
  show ?thesis
    using run take s0 s3 s45
    by (intro exI [of _ slots'])
       (simp add: n4 exampleRunners_def spec_runnerAfterUpdate_def spec_retryable_def spec_nonRetryable_def
          exampleRunner_def newRunner_def exampleEvm_def exampleEngine_def NewEbpTxExec_def
          exampleTx_def upt_rec)
qed

section \<open>The conflict resolver\<close>

lemma scan_conflictFn:
  "ScanAllShortKeys entries (conflictFn touchedSet) (True, st) =
     (if \<exists>e \<in> set entries. LittleEndian_Uint64 (fst e) \<in> touchedSet
      then (False, FAILED_TO_COMMIT) else (True, st),
      takeWhile (\<lambda>e. LittleEndian_Uint64 (fst e) \<notin> touchedSet) entries @
      take 1 (dropWhile (\<lambda>e. LittleEndian_Uint64 (fst e) \<notin> touchedSet) entries))"
  by (induction entries) (force simp: conflictFn_def Let_def)+

lemma scan_recordFn:
  "ScanAllShortKeys entries recordFn touchedSet =
     (touchedSet \<union> set (map (\<lambda>e. LittleEndian_Uint64 (fst e)) (filter snd entries)), entries)"
  by (induction entries arbitrary: touchedSet) (auto simp: recordFn_def)

lemma checkSlot_spec:
  "checkSlot r touchedSet =
     (r\<lparr>Status := (if spec_conflicts r touchedSet then FAILED_TO_COMMIT else Status r)\<rparr>,
      \<not> spec_conflicts r touchedSet,
      (if spec_conflicts r touchedSet then touchedSet else touchedSet \<union> spec_dirtyPrefixes r))"
  by (simp add: checkSlot_def scan_conflictFn scan_recordFn spec_conflicts_def spec_dirtyPrefixes_def)

lemma spec_touchedSet_Cons:
  "i \<le> length rs \<Longrightarrow>
   spec_touchedSet touchedSet (r # rs) (Suc i) =
     spec_touchedSet
       (if spec_conflicts r touchedSet then touchedSet else touchedSet \<union> spec_dirtyPrefixes r) rs i"
  by (induction i) auto

lemma checkTxDeps_loop:
  assumes "length pre = k"
  shows "\<exists>rs' trunk'.
           checkTxDeps [k ..< k + length rs] (pre @ map Some rs @ post, touchedSet, trunk) =
             Inr (pre @ map Some rs' @ post, spec_touchedSet touchedSet rs (length rs), trunk') \<and>
           length rs' = length rs \<and>
           (\<forall>i < length rs.
              rs' ! i =
                (rs ! i)\<lparr>Status := (if spec_conflicts (rs ! i) (spec_touchedSet touchedSet rs i)
                                     then FAILED_TO_COMMIT else Status (rs ! i))\<rparr>)"
  using assms
proof (induction rs arbitrary: pre k touchedSet trunk)
  case Nil
  then show ?case by simp
next
  case (Cons r rs)
  define r' where "r' = r\<lparr>Status := (if spec_conflicts r touchedSet then FAILED_TO_COMMIT else Status r)\<rparr>"
  define T1 where "T1 = (if spec_conflicts r touchedSet then touchedSet
                         else touchedSet \<union> spec_dirtyPrefixes r)"
  define trunk1 where "trunk1 = Close (Ctx r') (\<not> spec_conflicts r touchedSet) trunk"
  have upt: "[k ..< k + length (r # rs)] = k # [Suc k ..< Suc k + length rs]"
    by (subst upt_rec) simp
  have at_k: "(pre @ map Some (r # rs) @ post) ! k = Some r" "k < length (pre @ map Some (r # rs) @ post)"
    using Cons.prems by (simp_all add: nth_append)
  have upd: "(pre @ map Some (r # rs) @ post)[k := Some r'] = (pre @ [Some r']) @ map Some rs @ post"
    using Cons.prems by (simp add: list_update_append)
  have step: "checkTxDeps (k # [Suc k ..< Suc k + length rs])
                (pre @ map Some (r # rs) @ post, touchedSet, trunk) =
              checkTxDeps [Suc k ..< Suc k + length rs]
                ((pre @ [Some r']) @ map Some rs @ post, T1, trunk1)"
    using at_k upd
    by (simp add: checkSlot_spec r'_def T1_def trunk1_def del: upt_Suc list_update.simps)
  have len: "length (pre @ [Some r']) = Suc k"
    using Cons.prems by simp
  from Cons.IH [OF len, of T1 trunk1]
  obtain rs' trunk' where
    ih: "checkTxDeps [Suc k ..< Suc k + length rs] ((pre @ [Some r']) @ map Some rs @ post, T1, trunk1) =
           Inr ((pre @ [Some r']) @ map Some rs' @ post, spec_touchedSet T1 rs (length rs), trunk')"
    and ihlen: "length rs' = length rs"
    and ihnth: "\<forall>i < length rs.
                  rs' ! i = (rs ! i)\<lparr>Status := (if spec_conflicts (rs ! i) (spec_touchedSet T1 rs i)
                                     then FAILED_TO_COMMIT else Status (rs ! i))\<rparr>"
    by blast
  have final: "spec_touchedSet T1 rs (length rs) = spec_touchedSet touchedSet (r # rs) (length (r # rs))"
    using spec_touchedSet_Cons [of "length rs" rs touchedSet r] by (simp add: T1_def)
  have nth: "\<forall>i < length (r # rs).
              (r' # rs') ! i =
                ((r # rs) ! i)\<lparr>Status := (if spec_conflicts ((r # rs) ! i) (spec_touchedSet touchedSet (r # rs) i)
                                     then FAILED_TO_COMMIT else Status ((r # rs) ! i))\<rparr>"
  proof (intro allI impI)
    fix i assume i: "i < length (r # rs)"
    show "(r' # rs') ! i =
                ((r # rs) ! i)\<lparr>Status := (if spec_conflicts ((r # rs) ! i) (spec_touchedSet touchedSet (r # rs) i)
                                     then FAILED_TO_COMMIT else Status ((r # rs) ! i))\<rparr>"
    proof (cases i)
      case 0
      then show ?thesis by (simp add: r'_def)
    next
      case (Suc j)
      then have j: "j < length rs" using i by simp
      have "spec_touchedSet touchedSet (r # rs) (Suc j) = spec_touchedSet T1 rs j"
        using spec_touchedSet_Cons [of j rs touchedSet r] j by (simp add: T1_def)
      then show ?thesis
        using ihnth j Suc by simp
    qed
  qed
  have "checkTxDeps [k ..< k + length (r # rs)] (pre @ map Some (r # rs) @ post, touchedSet, trunk) =
          Inr (pre @ map Some (r' # rs') @ post,
               spec_touchedSet touchedSet (r # rs) (length (r # rs)), trunk')"
    unfolding upt step ih final by simp
  then show ?case
    using ihlen nth by (intro exI [of _ "r' # rs'"] exI [of _ trunk']) simp
qed


text \<open>
  C5. The loop of checkTxDepsAndUptStandbyQ over the bundle (lines 557-579), started with
  an empty \<open>touchedSet\<close>, when the first slots of \<open>Runners\<close> hold the runners \<open>rs\<close>.
  The first scan of a runner answers cannot-commit and sets the status
  \<open>FAILED_TO_COMMIT\<close> exactly when the 64-bit prefix of one of its short keys, clean or
  dirty, is in \<open>touchedSet\<close>, and the callback is called on the entries up to and
  including the first such key and on no later one. The second scan adds to
  \<open>touchedSet\<close> exactly the prefixes of the dirty keys. Over the bundle, slot \<open>i\<close> is
  judged against the set built by the slots before it in slot order, and keeps its
  status unless it conflicts.
\<close>

theorem checkTxDeps_touchedSet:
  "ScanAllShortKeys entries (conflictFn touchedSet) (True, st) =
     (if \<exists>e \<in> set entries. LittleEndian_Uint64 (fst e) \<in> touchedSet
      then (False, FAILED_TO_COMMIT) else (True, st),
      takeWhile (\<lambda>e. LittleEndian_Uint64 (fst e) \<notin> touchedSet) entries @
      take 1 (dropWhile (\<lambda>e. LittleEndian_Uint64 (fst e) \<notin> touchedSet) entries)) \<and>
   fst (ScanAllShortKeys entries recordFn touchedSet) =
     touchedSet \<union> LittleEndian_Uint64 ` fst ` {e \<in> set entries. snd e} \<and>
   (\<exists>rs' trunk'.
      checkTxDeps [0 ..< length rs] (map Some rs @ others, {}, trunk) =
        Inr (map Some rs' @ others, spec_touchedSet {} rs (length rs), trunk') \<and>
      length rs' = length rs \<and>
      (\<forall>i < length rs.
         rs' ! i =
           (rs ! i)\<lparr>Status := (if spec_conflicts (rs ! i) (spec_touchedSet {} rs i)
                                then FAILED_TO_COMMIT else Status (rs ! i))\<rparr>))"
proof -
  have "fst (ScanAllShortKeys entries recordFn touchedSet) =
          touchedSet \<union> LittleEndian_Uint64 ` fst ` {e \<in> set entries. snd e}"
    by (auto simp: scan_recordFn)
  moreover have "\<exists>rs' trunk'.
      checkTxDeps [0 ..< length rs] (map Some rs @ others, {}, trunk) =
        Inr (map Some rs' @ others, spec_touchedSet {} rs (length rs), trunk') \<and>
      length rs' = length rs \<and>
      (\<forall>i < length rs.
         rs' ! i =
           (rs ! i)\<lparr>Status := (if spec_conflicts (rs ! i) (spec_touchedSet {} rs i)
                                then FAILED_TO_COMMIT else Status (rs ! i))\<rparr>)"
    using checkTxDeps_loop [of "[]" 0 rs others "{}" trunk] by simp
  ultimately show ?thesis
    using scan_conflictFn [of entries touchedSet st] by blast
qed

theorem checkTxDeps_touchedSet_witness:
  "snd (ScanAllShortKeys (cachedEntries (Ctx (exampleConflictRunners ! 1))) (conflictFn {1}) (True, SUCCESS)) =
     [([3, 0, 0, 0, 0, 0, 0, 0], False), ([1, 0, 0, 0, 0, 0, 0, 0], False)] \<and>
   (\<exists>trunk'.
      checkTxDeps [0 ..< 3] (map Some exampleConflictRunners, {}, exampleTrunk) =
        Inr ([Some (exampleConflictRunners ! 0),
              Some ((exampleConflictRunners ! 1)\<lparr>Status := FAILED_TO_COMMIT\<rparr>),
              Some (exampleConflictRunners ! 2)],
             {1, 2}, trunk'))"
proof -
  have ks: "LittleEndian_Uint64 [1, 0, 0, 0, 0, 0, 0, 0] = 1"
    "LittleEndian_Uint64 [2, 0, 0, 0, 0, 0, 0, 0] = 2"
    "LittleEndian_Uint64 [3, 0, 0, 0, 0, 0, 0, 0] = 3"
    "LittleEndian_Uint64 [4, 0, 0, 0, 0, 0, 0, 0] = 4"
    by (simp_all add: LittleEndian_Uint64_def)
  have t0: "spec_touchedSet {} exampleConflictRunners 0 = {}"
    by simp
  have t1: "spec_touchedSet {} exampleConflictRunners 1 = {1}"
    unfolding One_nat_def spec_touchedSet.simps
    by (simp add: exampleConflictRunners_def spec_conflicts_def spec_dirtyPrefixes_def
        exampleRunner_def newRunner_def ks)
  have t2: "spec_touchedSet {} exampleConflictRunners 2 = {1}"
    unfolding numeral_2_eq_2 spec_touchedSet.simps
    using t1 [unfolded One_nat_def]
    by (simp add: exampleConflictRunners_def spec_conflicts_def spec_dirtyPrefixes_def
        exampleRunner_def newRunner_def ks)
  have t3: "spec_touchedSet {} exampleConflictRunners 3 = {1, 2}"
    unfolding numeral_3_eq_3 spec_touchedSet.simps
    using t2 [unfolded numeral_2_eq_2]
    by (auto simp: exampleConflictRunners_def spec_conflicts_def spec_dirtyPrefixes_def
        exampleRunner_def newRunner_def ks)
  have n3: "length exampleConflictRunners = 3"
    by (simp add: exampleConflictRunners_def)
  from checkTxDeps_touchedSet
         [of "cachedEntries (Ctx (exampleConflictRunners ! 1))" "{1}" SUCCESS
             exampleConflictRunners "[]" exampleTrunk]
  obtain rs' trunk' where
    scan: "ScanAllShortKeys (cachedEntries (Ctx (exampleConflictRunners ! 1))) (conflictFn {1}) (True, SUCCESS) =
            (if \<exists>e \<in> set (cachedEntries (Ctx (exampleConflictRunners ! 1))). LittleEndian_Uint64 (fst e) \<in> {1}
             then (False, FAILED_TO_COMMIT) else (True, SUCCESS),
             takeWhile (\<lambda>e. LittleEndian_Uint64 (fst e) \<notin> {1}) (cachedEntries (Ctx (exampleConflictRunners ! 1))) @
             take 1 (dropWhile (\<lambda>e. LittleEndian_Uint64 (fst e) \<notin> {1})
                       (cachedEntries (Ctx (exampleConflictRunners ! 1)))))"
    and run: "checkTxDeps [0 ..< length exampleConflictRunners]
                (map Some exampleConflictRunners @ [], {}, exampleTrunk) =
              Inr (map Some rs' @ [],
                   spec_touchedSet {} exampleConflictRunners (length exampleConflictRunners), trunk')"
    and len: "length rs' = length exampleConflictRunners"
    and nth: "\<forall>i < length exampleConflictRunners.
                rs' ! i =
                  (exampleConflictRunners ! i)
                    \<lparr>Status := (if spec_conflicts (exampleConflictRunners ! i)
                                     (spec_touchedSet {} exampleConflictRunners i)
                                then FAILED_TO_COMMIT else Status (exampleConflictRunners ! i))\<rparr>"
    by blast
  have r0: "rs' ! 0 = exampleConflictRunners ! 0"
    using nth [rule_format, of 0] t0
    by (simp add: n3 spec_conflicts_def)
  have r1: "rs' ! 1 = (exampleConflictRunners ! 1)\<lparr>Status := FAILED_TO_COMMIT\<rparr>"
    using nth [rule_format, of 1] t1
    by (simp add: n3 spec_conflicts_def exampleConflictRunners_def exampleRunner_def newRunner_def ks)
  have r2: "rs' ! 2 = exampleConflictRunners ! 2"
    using nth [rule_format, of 2] t2
    by (simp add: n3 spec_conflicts_def exampleConflictRunners_def exampleRunner_def newRunner_def ks)
  have "rs' = [rs' ! 0, rs' ! 1, rs' ! 2]"
    using len n3 by (intro nth_equalityI) (auto simp: less_Suc_eq numeral_3_eq_3 numeral_2_eq_2)
  then have rs': "rs' = [exampleConflictRunners ! 0,
                        (exampleConflictRunners ! 1)\<lparr>Status := FAILED_TO_COMMIT\<rparr>,
                        exampleConflictRunners ! 2]"
    using r0 r1 r2 by simp
  have seen: "snd (ScanAllShortKeys (cachedEntries (Ctx (exampleConflictRunners ! 1))) (conflictFn {1}) (True, SUCCESS)) =
     [([3, 0, 0, 0, 0, 0, 0, 0], False), ([1, 0, 0, 0, 0, 0, 0, 0], False)]"
    unfolding scan
    by (simp add: exampleConflictRunners_def exampleRunner_def newRunner_def ks)
  show ?thesis
    using seen run
    by (intro conjI exI [of _ trunk']) (simp_all add: n3 t3 rs')
qed

section \<open>The gas-fee deductor\<close>

lemma SubSender_fail:
  "spec_liveBalance c sender < fee \<Longrightarrow> SubSenderAccBalance c sender fee = Inl BalanceNotEnough"
  by (auto simp: SubSenderAccBalance_def updateBalance_def spec_liveBalance_def Let_def
      ZeroAccountInfo_def split: option.splits)

lemma SubSender_ok:
  "\<not> spec_liveBalance c sender < fee \<Longrightarrow>
   \<exists>c'. SubSenderAccBalance c sender fee = Inr c' \<and>
        spec_liveBalance c' sender = spec_liveBalance c sender - fee \<and>
        (\<forall>a. a \<noteq> sender \<longrightarrow> GetAccount c' a = GetAccount c a) \<and>
        baseAccounts c' = baseAccounts c \<and>
        dom (dirtyAccounts c') = insert sender (dom (dirtyAccounts c))"
  by (auto simp: SubSenderAccBalance_def updateBalance_def spec_liveBalance_def Let_def
      ZeroAccountInfo_def SetAccount_def GetAccount_def split: option.splits)

lemma cached_below_fee:
  fixes b fee v :: u256
  shows "b < fee \<Longrightarrow> uint b - uint fee < uint v"
proof -
  assume "b < fee"
  then have "uint b - uint fee < 0" by (simp add: word_less_def)
  moreover have "0 \<le> uint v" by simp
  ultimately show ?thesis by linarith
qed

lemma cached_above_fee:
  fixes b fee v :: u256
  shows "\<not> b < fee \<Longrightarrow> (b - fee < v) = (uint b - uint fee < uint v)"
proof -
  assume "\<not> b < fee"
  then have "uint fee \<le> uint b" by (simp add: word_less_def)
  then have "uint (b - fee) = uint b - uint fee" by (simp add: uint_sub_lem)
  then show ?thesis by (simp add: word_less_def)
qed

text \<open>
  C4. One info with no error tag, handled by the worker that owns its sender (the loop
  body of Prepare together with deductGasFeeAndUpdateFrontier). When the worker's cached
  nonce of the sender differs from the transaction's nonce, the info is tagged
  "incorrect nonce" and nothing else changes, the cached nonce included. Otherwise the
  cached nonce is incremented and the fee, the 256-bit product of the gas and the gas
  price, is debited from the sender's live balance in the worker's context. When the
  live balance is below the fee, nothing is debited, the cached balance becomes zero and
  the info is tagged "not enough balance to pay gasfee". When the debit succeeds the fee
  is added to the worker's total; a transaction to SEP206 forces the cached balance to
  zero; for any other destination an existing cached balance has the fee and then the
  value subtracted, and is forced to zero when the balance less the fee is below the
  value (the subtractions read over the integers, so this covers a cached balance below
  the fee).
\<close>

theorem deductOne_untagged:
  assumes "errorStr info = []"
  shows "(mapValue (addr2nonce' entry) (From (tx info)) \<noteq> Nonce (tx info) \<longrightarrow>
            deductOne info entry = (info\<lparr>errorStr := ''incorrect nonce''\<rparr>, entry)) \<and>
         (mapValue (addr2nonce' entry) (From (tx info)) = Nonce (tx info) \<longrightarrow>
            (\<exists>info' entry'.
               deductOne info entry = (info', entry') \<and>
               addr2nonce' entry' = (addr2nonce' entry)(From (tx info) \<mapsto> Nonce (tx info) + 1) \<and>
               (spec_liveBalance (ctx entry) (From (tx info)) < ucast (Gas (tx info)) * GasPrice (tx info) \<longrightarrow>
                  errorStr info' = ''not enough balance to pay gasfee'' \<and>
                  addr2Balance' entry' (From (tx info)) = Some 0 \<and>
                  ctx entry' = ctx entry \<and>
                  totalGasFee entry' = totalGasFee entry) \<and>
               (\<not> spec_liveBalance (ctx entry) (From (tx info)) < ucast (Gas (tx info)) * GasPrice (tx info) \<longrightarrow>
                  errorStr info' = [] \<and>
                  txBytes info' = ToBytes (tx info) \<and>
                  changed entry' \<and>
                  spec_liveBalance (ctx entry') (From (tx info)) =
                    spec_liveBalance (ctx entry) (From (tx info)) - ucast (Gas (tx info)) * GasPrice (tx info) \<and>
                  totalGasFee entry' = totalGasFee entry + ucast (Gas (tx info)) * GasPrice (tx info) \<and>
                  (To (tx info) = Sep206Address \<longrightarrow> addr2Balance' entry' (From (tx info)) = Some 0) \<and>
                  (To (tx info) \<noteq> Sep206Address \<longrightarrow>
                     (\<forall>balance. addr2Balance' entry (From (tx info)) = Some balance \<longrightarrow>
                        addr2Balance' entry' (From (tx info)) =
                          Some (if uint balance - uint (ucast (Gas (tx info)) * GasPrice (tx info) :: u256)
                                     < uint (Value (tx info))
                                then 0
                                else balance - ucast (Gas (tx info)) * GasPrice (tx info) - Value (tx info)))))))"
proof -
  define sender where "sender = From (tx info)"
  define fee :: u256 where "fee = ucast (Gas (tx info)) * GasPrice (tx info)"
  define entry1 where "entry1 = entry\<lparr>addr2nonce' :=
                              (addr2nonce' entry)(sender \<mapsto> mapValue (addr2nonce' entry) sender + 1)\<rparr>"
  have mismatch: "mapValue (addr2nonce' entry) sender \<noteq> Nonce (tx info) \<Longrightarrow>
                  deductOne info entry = (info\<lparr>errorStr := ''incorrect nonce''\<rparr>, entry)"
    using assms by (simp add: deductOne_def sender_def)
  have match: "mapValue (addr2nonce' entry) sender = Nonce (tx info) \<Longrightarrow>
               deductOne info entry =
                 (case deductGasFeeAndUpdateFrontier sender info entry1 of
                    (Some err, info', entry') \<Rightarrow> (info', entry')
                  | (None, info', entry') \<Rightarrow>
                      (info'\<lparr>txBytes := ToBytes (tx info')\<rparr>, entry'\<lparr>changed := True\<rparr>))"
    using assms by (simp add: deductOne_def sender_def entry1_def Let_def)
  have poor: "spec_liveBalance (ctx entry) sender < fee \<Longrightarrow>
              deductGasFeeAndUpdateFrontier sender info entry1 =
                (Some BalanceNotEnough,
                 info\<lparr>errorStr := ''not enough balance to pay gasfee''\<rparr>,
                 entry1\<lparr>addr2Balance' := (addr2Balance' entry1)(sender \<mapsto> 0)\<rparr>)"
    using SubSender_fail [of "ctx entry" sender fee]
    by (simp add: deductGasFeeAndUpdateFrontier_def fee_def entry1_def Let_def)
  have rich: "\<not> spec_liveBalance (ctx entry) sender < fee \<Longrightarrow>
              \<exists>c'. SubSenderAccBalance (ctx entry) sender fee = Inr c' \<and>
                   spec_liveBalance c' sender = spec_liveBalance (ctx entry) sender - fee \<and>
                   deductGasFeeAndUpdateFrontier sender info entry1 =
                     (None, info,
                      entry1\<lparr>ctx := c',
                             addr2Balance' := (addr2Balance' entry1)(sender \<mapsto>
                               (if To (tx info) = Sep206Address then 0
                                else (case addr2Balance' entry sender of
                                        None \<Rightarrow> GetBalanceAfterBchTransfer c' sender (Value (tx info))
                                      | Some balance \<Rightarrow>
                                          if uint balance - uint fee < uint (Value (tx info)) then 0
                                          else balance - fee - Value (tx info)))),
                             totalGasFee := totalGasFee entry1 + fee\<rparr>)"
  proof -
    assume "\<not> spec_liveBalance (ctx entry) sender < fee"
    from SubSender_ok [OF this] obtain c' where
      c': "SubSenderAccBalance (ctx entry) sender fee = Inr c'"
          "spec_liveBalance c' sender = spec_liveBalance (ctx entry) sender - fee"
      by blast
    have "deductGasFeeAndUpdateFrontier sender info entry1 =
                     (None, info,
                      entry1\<lparr>ctx := c',
                             addr2Balance' := (addr2Balance' entry1)(sender \<mapsto>
                               (if To (tx info) = Sep206Address then 0
                                else (case addr2Balance' entry sender of
                                        None \<Rightarrow> GetBalanceAfterBchTransfer c' sender (Value (tx info))
                                      | Some balance \<Rightarrow>
                                          if uint balance - uint fee < uint (Value (tx info)) then 0
                                          else balance - fee - Value (tx info)))),
                             totalGasFee := totalGasFee entry1 + fee\<rparr>)"
      using c'(1)
      by (cases "addr2Balance' entry sender")
         (simp_all add: deductGasFeeAndUpdateFrontier_def fee_def [symmetric] entry1_def Let_def
            cached_below_fee cached_above_fee)
    then show ?thesis using c' by blast
  qed
  show ?thesis
    unfolding sender_def [symmetric] fee_def [symmetric]
  proof (intro conjI impI)
    assume "mapValue (addr2nonce' entry) sender \<noteq> Nonce (tx info)"
    then show "deductOne info entry = (info\<lparr>errorStr := ''incorrect nonce''\<rparr>, entry)"
      by (rule mismatch)
  next
    assume eq: "mapValue (addr2nonce' entry) sender = Nonce (tx info)"
    show "\<exists>info' entry'.
               deductOne info entry = (info', entry') \<and>
               addr2nonce' entry' = (addr2nonce' entry)(sender \<mapsto> Nonce (tx info) + 1) \<and>
               (spec_liveBalance (ctx entry) sender < fee \<longrightarrow>
                  errorStr info' = ''not enough balance to pay gasfee'' \<and>
                  addr2Balance' entry' sender = Some 0 \<and>
                  ctx entry' = ctx entry \<and>
                  totalGasFee entry' = totalGasFee entry) \<and>
               (\<not> spec_liveBalance (ctx entry) sender < fee \<longrightarrow>
                  errorStr info' = [] \<and>
                  txBytes info' = ToBytes (tx info) \<and>
                  changed entry' \<and>
                  spec_liveBalance (ctx entry') sender = spec_liveBalance (ctx entry) sender - fee \<and>
                  totalGasFee entry' = totalGasFee entry + fee \<and>
                  (To (tx info) = Sep206Address \<longrightarrow> addr2Balance' entry' sender = Some 0) \<and>
                  (To (tx info) \<noteq> Sep206Address \<longrightarrow>
                     (\<forall>balance. addr2Balance' entry sender = Some balance \<longrightarrow>
                        addr2Balance' entry' sender =
                          Some (if uint balance - uint fee < uint (Value (tx info))
                                then 0
                                else balance - fee - Value (tx info)))))"
    proof (cases "spec_liveBalance (ctx entry) sender < fee")
      case True
      have "deductOne info entry =
              (info\<lparr>errorStr := ''not enough balance to pay gasfee''\<rparr>,
               entry1\<lparr>addr2Balance' := (addr2Balance' entry1)(sender \<mapsto> 0)\<rparr>)"
        by (simp only: match [OF eq] poor [OF True] prod.case option.case)
      then show ?thesis
        using True eq by (simp add: entry1_def)
    next
      case False
      from rich [OF False] obtain c' where
        c': "spec_liveBalance c' sender = spec_liveBalance (ctx entry) sender - fee"
        and d: "deductGasFeeAndUpdateFrontier sender info entry1 =
                     (None, info,
                      entry1\<lparr>ctx := c',
                             addr2Balance' := (addr2Balance' entry1)(sender \<mapsto>
                               (if To (tx info) = Sep206Address then 0
                                else (case addr2Balance' entry sender of
                                        None \<Rightarrow> GetBalanceAfterBchTransfer c' sender (Value (tx info))
                                      | Some balance \<Rightarrow>
                                          if uint balance - uint fee < uint (Value (tx info)) then 0
                                          else balance - fee - Value (tx info)))),
                             totalGasFee := totalGasFee entry1 + fee\<rparr>)"
        by blast
      have "deductOne info entry =
              (info\<lparr>txBytes := ToBytes (tx info)\<rparr>,
               entry1\<lparr>ctx := c',
                      addr2Balance' := (addr2Balance' entry1)(sender \<mapsto>
                        (if To (tx info) = Sep206Address then 0
                         else (case addr2Balance' entry sender of
                                 None \<Rightarrow> GetBalanceAfterBchTransfer c' sender (Value (tx info))
                               | Some balance \<Rightarrow>
                                   if uint balance - uint fee < uint (Value (tx info)) then 0
                                   else balance - fee - Value (tx info)))),
                      totalGasFee := totalGasFee entry1 + fee,
                      changed := True\<rparr>)"
        by (simp only: match [OF eq] d prod.case option.case)
      then show ?thesis
        using False assms eq c' by (simp add: entry1_def)
    qed
  qed
qed


theorem deductOne_untagged_witness:
  "deductOne (exampleInfo 0xB2 4) exampleEntry =
     ((exampleInfo 0xB2 4)\<lparr>errorStr := ''incorrect nonce''\<rparr>, exampleEntry) \<and>
   errorStr (fst (deductOne (exampleInfo 0xB2 5) exampleEntry)) = ''not enough balance to pay gasfee'' \<and>
   addr2nonce' (snd (deductOne (exampleInfo 0xB2 5) exampleEntry)) 0xB2 = Some 6 \<and>
   addr2Balance' (snd (deductOne (exampleInfo 0xB2 5) exampleEntry)) 0xB2 = Some 0 \<and>
   errorStr (fst (deductOne (exampleInfo 0xA1 0) exampleEntry)) = [] \<and>
   addr2nonce' (snd (deductOne (exampleInfo 0xA1 0) exampleEntry)) 0xA1 = Some 1 \<and>
   spec_liveBalance (ctx (snd (deductOne (exampleInfo 0xA1 0) exampleEntry))) 0xA1 = 979000 \<and>
   addr2Balance' (snd (deductOne (exampleInfo 0xA1 0) exampleEntry)) 0xA1 = Some 978900 \<and>
   totalGasFee (snd (deductOne (exampleInfo 0xA1 0) exampleEntry)) = 21000"
proof -
  let ?e = exampleEntry
  have untagged: "errorStr (exampleInfo 0xB2 4) = []" "errorStr (exampleInfo 0xB2 5) = []"
    "errorStr (exampleInfo 0xA1 0) = []"
    by (simp_all add: exampleInfo_def)
  have sender: "From (tx (exampleInfo 0xB2 4)) = 0xB2" "From (tx (exampleInfo 0xB2 5)) = 0xB2"
    "From (tx (exampleInfo 0xA1 0)) = 0xA1"
    by (simp_all add: exampleInfo_def exampleTx_def)
  have nonce: "Nonce (tx (exampleInfo 0xB2 4)) = 4" "Nonce (tx (exampleInfo 0xB2 5)) = 5"
    "Nonce (tx (exampleInfo 0xA1 0)) = 0"
    by (simp_all add: exampleInfo_def exampleTx_def)
  have cachedNonce: "mapValue (addr2nonce' ?e) 0xB2 = 5" "mapValue (addr2nonce' ?e) 0xA1 = 0"
    by (simp_all add: exampleEntry_def mapValue_def)
  have live: "spec_liveBalance (ctx ?e) 0xA1 = 1000000" "spec_liveBalance (ctx ?e) 0xB2 = 1000"
    by (simp_all add: spec_liveBalance_def exampleEntry_def WithRbtCopy_def GetAccount_def
        exampleTrunk_def)
  have fees: "(ucast (Gas (tx (exampleInfo 0xA1 0))) :: u256) * GasPrice (tx (exampleInfo 0xA1 0)) = 21000"
    "(ucast (Gas (tx (exampleInfo 0xB2 5))) :: u256) * GasPrice (tx (exampleInfo 0xB2 5)) = 21000"
    by (simp_all add: exampleInfo_def exampleTx_def)
  have w1: "deductOne (exampleInfo 0xB2 4) ?e = ((exampleInfo 0xB2 4)\<lparr>errorStr := ''incorrect nonce''\<rparr>, ?e)"
    using deductOne_untagged [OF untagged(1), of ?e, THEN conjunct1]
    by (simp add: sender nonce cachedNonce)
  have ev: "To (tx (exampleInfo 0xA1 0)) \<noteq> Sep206Address" "Value (tx (exampleInfo 0xA1 0)) = 100"
    "addr2Balance' ?e 0xA1 = Some 1000000" "totalGasFee ?e = 0"
    by (simp_all add: exampleInfo_def exampleTx_def Sep206Address_def exampleEntry_def)
  have w2: "\<exists>info' entry'.
              deductOne (exampleInfo 0xB2 5) ?e = (info', entry') \<and>
              addr2nonce' entry' 0xB2 = Some 6 \<and>
              errorStr info' = ''not enough balance to pay gasfee'' \<and>
              addr2Balance' entry' 0xB2 = Some 0"
    using deductOne_untagged [OF untagged(2), of ?e, THEN conjunct2]
    by (simp add: sender nonce cachedNonce live fees ev) auto
  have w3: "\<exists>info' entry'.
              deductOne (exampleInfo 0xA1 0) ?e = (info', entry') \<and>
              addr2nonce' entry' 0xA1 = Some 1 \<and>
              errorStr info' = [] \<and>
              spec_liveBalance (ctx entry') 0xA1 = 979000 \<and>
              totalGasFee entry' = 21000 \<and>
              addr2Balance' entry' 0xA1 = Some 978900"
    using deductOne_untagged [OF untagged(3), of ?e, THEN conjunct2]
    by (simp add: sender nonce cachedNonce live fees ev) auto
  from w2 obtain info2 entry2 where
    d2: "deductOne (exampleInfo 0xB2 5) ?e = (info2, entry2)"
    and p2: "addr2nonce' entry2 0xB2 = Some 6" "errorStr info2 = ''not enough balance to pay gasfee''"
      "addr2Balance' entry2 0xB2 = Some 0"
    by blast
  from w3 obtain info3 entry3 where
    d3: "deductOne (exampleInfo 0xA1 0) ?e = (info3, entry3)"
    and p3: "addr2nonce' entry3 0xA1 = Some 1" "errorStr info3 = []"
      "spec_liveBalance (ctx entry3) 0xA1 = 979000" "totalGasFee entry3 = 21000"
      "addr2Balance' entry3 0xA1 = Some 978900"
    by blast
  show ?thesis
    using w1 p2 p3 by (simp add: d2 d3)
qed

section \<open>The reorderer\<close>

lemma set_firstAppearance: "set (spec_firstAppearance xs) = set xs"
  by (induction xs) auto

lemma distinct_firstAppearance: "distinct (spec_firstAppearance xs)"
  by (induction xs) (auto simp: distinct_removeAll)

lemma filter_removeAll_absent: "\<not> P a \<Longrightarrow> filter P (removeAll a ys) = filter P ys"
  by (induction ys) auto

lemma groupInfos_result:
  assumes "dom m = set l"
  shows "groupInfos frm xs m l =
           ((\<lambda>a. if a \<in> set l \<union> frm ` set xs
                 then Some (infosOf m a @ filter (\<lambda>i. frm i = a) xs) else None),
            l @ filter (\<lambda>a. a \<notin> set l) (spec_firstAppearance (map frm xs)))"
  using assms
proof (induction xs arbitrary: m l)
  case Nil
  then show ?case
    by (auto simp: infosOf_def fun_eq_iff split: option.splits)
next
  case (Cons x xs)
  show ?case
  proof (cases "m (frm x)")
    case None
    then have notin: "frm x \<notin> set l"
      using Cons.prems by auto
    have dom1: "dom (m(frm x \<mapsto> [x])) = set (l @ [frm x])"
      using Cons.prems by auto
    have maps: "(\<lambda>a. if a \<in> set (l @ [frm x]) \<union> frm ` set xs
                     then Some (infosOf (m(frm x \<mapsto> [x])) a @ filter (\<lambda>i. frm i = a) xs) else None) =
                (\<lambda>a. if a \<in> set l \<union> frm ` set (x # xs)
                     then Some (infosOf m a @ filter (\<lambda>i. frm i = a) (x # xs)) else None)"
      using None by (auto simp: fun_eq_iff infosOf_def)
    have lists: "(l @ [frm x]) @ filter (\<lambda>a. a \<notin> set (l @ [frm x])) (spec_firstAppearance (map frm xs)) =
                 l @ filter (\<lambda>a. a \<notin> set l) (spec_firstAppearance (map frm (x # xs)))"
      using notin by (simp add: removeAll_filter_not_eq conj_commute eq_commute)
    have step: "groupInfos frm (x # xs) m l = groupInfos frm xs (m(frm x \<mapsto> [x])) (l @ [frm x])"
      using None by simp
    show ?thesis
      by (simp only: step Cons.IH [OF dom1] maps lists)
  next
    case (Some infos)
    then have isin: "frm x \<in> set l"
      using Cons.prems by auto
    have dom1: "dom (m(frm x \<mapsto> infos @ [x])) = set l"
      using Cons.prems Some by auto
    have maps: "(\<lambda>a. if a \<in> set l \<union> frm ` set xs
                     then Some (infosOf (m(frm x \<mapsto> infos @ [x])) a @ filter (\<lambda>i. frm i = a) xs) else None) =
                (\<lambda>a. if a \<in> set l \<union> frm ` set (x # xs)
                     then Some (infosOf m a @ filter (\<lambda>i. frm i = a) (x # xs)) else None)"
      using Some isin by (auto simp: fun_eq_iff infosOf_def)
    have lists: "l @ filter (\<lambda>a. a \<notin> set l) (spec_firstAppearance (map frm xs)) =
                 l @ filter (\<lambda>a. a \<notin> set l) (spec_firstAppearance (map frm (x # xs)))"
      using isin by (simp add: filter_removeAll_absent)
    have step: "groupInfos frm (x # xs) m l = groupInfos frm xs (m(frm x \<mapsto> infos @ [x])) l"
      using Some by simp
    show ?thesis
      by (simp only: step Cons.IH [OF dom1] maps lists)
  qed
qed

lemma shuffle_is_swaps:
  "shuffle rnd n g l = spec_swaps (spec_draws rnd g (2 * n)) l"
  by (induction n arbitrary: g l) (auto simp: Let_def split: prod.splits)

lemma swap_set_distinct:
  "set (l[i mod length l := l ! (j mod length l), j mod length l := l ! (i mod length l)]) = set l \<and>
   distinct (l[i mod length l := l ! (j mod length l), j mod length l := l ! (i mod length l)]) = distinct l"
proof (cases "l = []")
  case True
  then show ?thesis by simp
next
  case False
  then have "i mod length l < length l" "j mod length l < length l"
    by simp_all
  then show ?thesis
    by simp
qed

lemma spec_swaps_set_distinct:
  "set (spec_swaps xs l) = set l \<and> distinct (spec_swaps xs l) = distinct l"
proof (induction xs l rule: spec_swaps.induct)
  case (1 x0 x1 xs l)
  then show ?case
    using swap_set_distinct [of l x0 x1] by simp
qed simp_all

lemma concat_single_group:
  "distinct sh \<Longrightarrow>
   concat (map (\<lambda>b. if b = a then ys else []) sh) = (if a \<in> set sh then ys else [])"
  by (induction sh) auto

lemma filter_concat_groups:
  assumes "distinct sh"
  shows "filter (\<lambda>i. frm i = a) (concat (map (\<lambda>b. filter (\<lambda>i. frm i = b) xs) sh)) =
           (if a \<in> set sh then filter (\<lambda>i. frm i = a) xs else [])"
proof -
  have "filter (\<lambda>i. frm i = a) (concat (map (\<lambda>b. filter (\<lambda>i. frm i = b) xs) sh)) =
        concat (map (\<lambda>b. if b = a then filter (\<lambda>i. frm i = a) xs else []) sh)"
    by (induction sh) (auto simp: filter_concat intro: filter_cong)
  also have "\<dots> = (if a \<in> set sh then filter (\<lambda>i. frm i = a) xs else [])"
    by (rule concat_single_group [OF assms])
  finally show ?thesis .
qed


lemma infosOf_groups:
  "infosOf (\<lambda>a. if a \<in> frm ` set xs then Some (filter (\<lambda>i. frm i = a) xs) else None) =
     (\<lambda>a. filter (\<lambda>i. frm i = a) xs)"
proof
  fix a
  have "a \<notin> frm ` set xs \<Longrightarrow> filter (\<lambda>i. frm i = a) xs = []"
    by (auto simp: filter_empty_conv)
  then show "infosOf (\<lambda>a. if a \<in> frm ` set xs then Some (filter (\<lambda>i. frm i = a) xs) else None) a =
             filter (\<lambda>i. frm i = a) xs"
    by (auto simp: infosOf_def)
qed

lemma reorderInfoList_eq:
  "reorderInfoList rnd frm infoList reorderSeed =
     (concat (map (\<lambda>a. filter (\<lambda>i. frm i = a) infoList)
                (spec_swaps
                   (spec_draws rnd (Seed rnd reorderSeed)
                      (2 * length (spec_firstAppearance (map frm infoList))))
                   (spec_firstAppearance (map frm infoList)))),
      (\<lambda>a. if a \<in> frm ` set infoList then Some (filter (\<lambda>i. frm i = a) infoList) else None))"
proof -
  have g: "groupInfos frm infoList Map.empty [] =
             ((\<lambda>a. if a \<in> frm ` set infoList then Some (filter (\<lambda>i. frm i = a) infoList) else None),
              spec_firstAppearance (map frm infoList))"
    using groupInfos_result [of Map.empty "[]" frm infoList]
    by (simp add: infosOf_def cong: if_cong)
  show ?thesis
    by (simp add: reorderInfoList_def g shuffle_is_swaps infosOf_groups)
qed

text \<open>
  C3. reorderInfoList is a function of the info list and the seed alone (the generator
  is made and seeded inside, and no map is iterated): equal inputs give equal outputs.
  Its output lists the infos sender by sender, each sender's infos in their order in
  the input, so the infos of any one sender keep their relative order. The senders are
  taken in the order of first appearance and then shuffled by as many swaps as there
  are senders, the swap number \<open>k\<close> exchanging the positions given by the values
  number \<open>2k\<close> and \<open>2k + 1\<close> of the seeded generator, reduced modulo the number of
  senders. The second component maps each sender to its infos.
\<close>

theorem reorderInfoList_refines_spec:
  "reorderInfoList rnd frm infoList reorderSeed =
     (concat (map (\<lambda>a. filter (\<lambda>i. frm i = a) infoList)
                (spec_swaps
                   (spec_draws rnd (Seed rnd reorderSeed)
                      (2 * length (spec_firstAppearance (map frm infoList))))
                   (spec_firstAppearance (map frm infoList)))),
      (\<lambda>a. if a \<in> frm ` set infoList then Some (filter (\<lambda>i. frm i = a) infoList) else None)) \<and>
   (\<forall>a. filter (\<lambda>i. frm i = a) (fst (reorderInfoList rnd frm infoList reorderSeed)) =
          filter (\<lambda>i. frm i = a) infoList) \<and>
   (infoList' = infoList \<and> reorderSeed' = reorderSeed \<longrightarrow>
      reorderInfoList rnd frm infoList' reorderSeed' = reorderInfoList rnd frm infoList reorderSeed)"
proof -
  define sh where "sh = spec_swaps
                   (spec_draws rnd (Seed rnd reorderSeed)
                      (2 * length (spec_firstAppearance (map frm infoList))))
                   (spec_firstAppearance (map frm infoList))"
  have sh: "set sh = frm ` set infoList" "distinct sh"
    using spec_swaps_set_distinct [of _ "spec_firstAppearance (map frm infoList)"]
    by (simp_all add: sh_def set_firstAppearance distinct_firstAppearance)
  have order: "filter (\<lambda>i. frm i = a) (concat (map (\<lambda>a. filter (\<lambda>i. frm i = a) infoList) sh)) =
               filter (\<lambda>i. frm i = a) infoList" for a
  proof -
    have "a \<notin> frm ` set infoList \<Longrightarrow> filter (\<lambda>i. frm i = a) infoList = []"
      by (auto simp: filter_empty_conv)
    then show ?thesis
      using filter_concat_groups [OF sh(2), of frm a infoList] sh(1) by auto
  qed
  show ?thesis
    using order by (simp add: reorderInfoList_eq sh_def)
qed

theorem reorderInfoList_refines_spec_witness:
  "fst (reorderInfoList exampleRand (\<lambda>i. From (tx i))
          [exampleInfo 0xA1 0, exampleInfo 0xB2 5, exampleInfo 0xA1 1, exampleInfo 0xC3 0] 42) =
     [exampleInfo 0xC3 0, exampleInfo 0xB2 5, exampleInfo 0xA1 0, exampleInfo 0xA1 1] \<and>
   filter (\<lambda>i. From (tx i) = 0xA1)
     (fst (reorderInfoList exampleRand (\<lambda>i. From (tx i))
             [exampleInfo 0xA1 0, exampleInfo 0xB2 5, exampleInfo 0xA1 1, exampleInfo 0xC3 0] 42)) =
     [exampleInfo 0xA1 0, exampleInfo 0xA1 1]"
proof -
  let ?L = "[exampleInfo 0xA1 0, exampleInfo 0xB2 5, exampleInfo 0xA1 1, exampleInfo 0xC3 0]"
  let ?frm = "\<lambda>i. From (tx i)"
  have order: "spec_firstAppearance (map ?frm ?L) = [0xA1, 0xB2, 0xC3]"
    by (simp add: exampleInfo_def exampleTx_def)
  have n6: "2 * length [0xA1, 0xB2, 0xC3 :: Address] = Suc (Suc (Suc (Suc (Suc (Suc 0)))))"
    by simp
  have draws: "spec_draws exampleRand (Seed exampleRand 42) (Suc (Suc (Suc (Suc (Suc (Suc 0)))))) =
               [42, 43, 44, 45, 46, 47]"
    by (simp add: exampleRand_def)
  have swaps: "spec_swaps [42, 43, 44, 45, 46, 47] [0xA1, 0xB2, 0xC3 :: Address] = [0xC3, 0xB2, 0xA1]"
    by (simp add: nth_Cons' list_update_code)
  have groups: "concat (map (\<lambda>a. filter (\<lambda>i. ?frm i = a) ?L) [0xC3, 0xB2, 0xA1]) =
                [exampleInfo 0xC3 0, exampleInfo 0xB2 5, exampleInfo 0xA1 0, exampleInfo 0xA1 1]"
    by (simp add: exampleInfo_def exampleTx_def)
  have same: "filter (\<lambda>i. ?frm i = 0xA1) ?L = [exampleInfo 0xA1 0, exampleInfo 0xA1 1]"
    by (simp add: exampleInfo_def exampleTx_def)
  note inst = reorderInfoList_refines_spec [of exampleRand ?frm ?L 42 ?L 42]
  have out: "fst (reorderInfoList exampleRand ?frm ?L 42) =
             [exampleInfo 0xC3 0, exampleInfo 0xB2 5, exampleInfo 0xA1 0, exampleInfo 0xA1 1]"
    by (simp only: inst [THEN conjunct1] fst_conv order n6 draws swaps groups)
  have sub: "filter (\<lambda>i. ?frm i = 0xA1) (fst (reorderInfoList exampleRand ?frm ?L 42)) =
             [exampleInfo 0xA1 0, exampleInfo 0xA1 1]"
    using inst [THEN conjunct2, THEN conjunct1, THEN spec, of "0xA1"]
    by (simp only: same)
  show ?thesis
    using out sub by (rule conjI)
qed

end
